theory Spec2Isabelle
  imports Complex_Main "HOL-Library.Sublist"
begin

section \<open>Conventions\<close>

text \<open>
  The development embeds three JavaScript modules of the financial agent: the search
  orchestrator (\<^verbatim>\<open>searchOrchestrator.js\<close>), the results processor
  (\<^verbatim>\<open>resultsProcessor.js\<close>) and the workflow coordinator
  (\<^verbatim>\<open>services/search/index.js\<close>) together with the planning service it calls.

  \<^item> A JavaScript object is a record; a property that may be \<^verbatim>\<open>undefined\<close> or
    \<^verbatim>\<open>null\<close> is an \<open>option\<close>.
  \<^item> A thrown \<^verbatim>\<open>Error\<close> is the left injection of a sum, carrying the message.
  \<^item> Relevance scores are integers, as the adapters produce them
    (\<^verbatim>\<open>Math.round\<close> in \<^verbatim>\<open>calculateRelevanceScore\<close>, the constants 85/65/45).
    Quotients that JavaScript computes in double precision are computed exactly in
    \<open>rat\<close>; for the operand sizes that occur (list lengths, scores up to 100) the
    double result rounds and compares the same way as the exact one.
  \<^item> Clock readings, random identifiers and log output are left out, except where a
    value is passed in explicitly (\<open>now\<close>, \<open>searchId\<close>).
\<close>

subsection \<open>JavaScript primitives\<close>

text \<open>Truthiness of a string value that may be absent: absent and \<^verbatim>\<open>''\<close> are falsy.\<close>

definition truthyStr :: "string option \<Rightarrow> bool" where
  "truthyStr v = (case v of None \<Rightarrow> False | Some s \<Rightarrow> s \<noteq> [])"

text \<open>Truthiness of a number that may be absent: absent and \<^verbatim>\<open>0\<close> are falsy.\<close>

definition truthyNum :: "int option \<Rightarrow> bool" where
  "truthyNum v = (case v of None \<Rightarrow> False | Some n \<Rightarrow> n \<noteq> 0)"

text \<open>\<^verbatim>\<open>Math.round\<close>: the nearest integer, a tie going up.\<close>

definition mathRound :: "rat \<Rightarrow> int" where
  "mathRound x = \<lfloor>x + 1 / 2\<rfloor>"

section \<open>Search orchestrator\<close>

subsection \<open>Data model\<close>

text \<open>What \<^verbatim>\<open>searchWithPerplexity\<close> resolves to: on success a record without
  \<^verbatim>\<open>error\<close>, on failure one with \<^verbatim>\<open>content: null\<close> and the message.\<close>

record perplexity_result =
  pr_content :: "string option"
  pr_error :: "string option"
  pr_confidence :: string
  pr_searchId :: string

text \<open>The \<^verbatim>\<open>data\<close> object of one scraped page.\<close>

record firecrawl_data =
  fd_title :: "string option"
  fd_url :: "string option"
  fd_content :: "string option"
  fd_relevanceScore :: "int option"
  fd_extractedData :: "string option"

record firecrawl_item =
  fi_data :: "firecrawl_data option"

text \<open>What \<^verbatim>\<open>extractDataForQuery\<close> resolves to.\<close>

record firecrawl_result =
  fr_successful :: "firecrawl_item list option"

text \<open>One element of \<^verbatim>\<open>combined.allResults\<close>.\<close>

record combined_entry =
  ce_source :: string
  ce_title :: "string option"
  ce_url :: "string option"
  ce_content :: "string option"
  ce_confidence :: "string option"
  ce_searchId :: "string option"
  ce_relevanceScore :: "int option"
  ce_extractedData :: "string option"

record combined_summary =
  totalSources :: nat
  perplexityAvailable :: bool
  firecrawlAvailable :: bool
  combinedConfidence :: int

record combined_result =
  cr_query :: string
  cr_searchId :: string
  cr_sources :: "string list"
  cr_allResults :: "combined_entry list"
  cr_summary :: combined_summary

record provider_errors =
  err_perplexity :: "string option"
  err_firecrawl :: "string option"

record search_operation =
  so_id :: string
  so_query :: string
  so_status :: string
  so_perplexity :: "perplexity_result option"
  so_firecrawl :: "firecrawl_result option"
  so_errors :: provider_errors
  so_error :: "string option"

subsection \<open>combineSearchResults\<close>

text \<open>\<^verbatim>\<open>perplexity && !perplexity.error\<close>\<close>

definition perplexityUsable :: "perplexity_result option \<Rightarrow> bool" where
  "perplexityUsable p = (case p of None \<Rightarrow> False | Some r \<Rightarrow> \<not> truthyStr (pr_error r))"

text \<open>\<^verbatim>\<open>firecrawl && firecrawl.successful && firecrawl.successful.length > 0\<close>\<close>

definition firecrawlUsable :: "firecrawl_result option \<Rightarrow> bool" where
  "firecrawlUsable f =
     (case f of None \<Rightarrow> False
      | Some r \<Rightarrow> (case fr_successful r of None \<Rightarrow> False | Some xs \<Rightarrow> length xs > 0))"

definition perplexityEntry :: "perplexity_result \<Rightarrow> combined_entry" where
  "perplexityEntry p =
     \<lparr> ce_source = ''perplexity'', ce_title = None, ce_url = None,
       ce_content = pr_content p, ce_confidence = Some (pr_confidence p),
       ce_searchId = Some (pr_searchId p), ce_relevanceScore = None,
       ce_extractedData = None \<rparr>"

text \<open>The optional chaining \<^verbatim>\<open>result.data?.field\<close>.\<close>

definition dataField :: "(firecrawl_data \<Rightarrow> 'a option) \<Rightarrow> firecrawl_item \<Rightarrow> 'a option" where
  "dataField sel item = (case fi_data item of None \<Rightarrow> None | Some d \<Rightarrow> sel d)"

definition firecrawlEntry :: "firecrawl_item \<Rightarrow> combined_entry" where
  "firecrawlEntry item =
     \<lparr> ce_source = ''firecrawl'', ce_title = dataField fd_title item,
       ce_url = dataField fd_url item, ce_content = dataField fd_content item,
       ce_confidence = None, ce_searchId = None,
       ce_relevanceScore = dataField fd_relevanceScore item,
       ce_extractedData = dataField fd_extractedData item \<rparr>"

text \<open>The summand of the reduction:
  \<^verbatim>\<open>result.confidence === 'high' ? 90 : result.relevanceScore || 50\<close>.\<close>

definition entryConfidence :: "combined_entry \<Rightarrow> int" where
  "entryConfidence e =
     (if ce_confidence e = Some ''high'' then 90
      else if truthyNum (ce_relevanceScore e) then the (ce_relevanceScore e)
      else 50)"

definition confidenceSum :: "combined_entry list \<Rightarrow> int" where
  "confidenceSum es = foldl (\<lambda>sum result. sum + entryConfidence result) 0 es"

definition combineSearchResults :: "search_operation \<Rightarrow> combined_result" where
  "combineSearchResults searchOperation =
     (let perplexity = so_perplexity searchOperation;
          firecrawl = so_firecrawl searchOperation;
          pOk = perplexityUsable perplexity;
          fOk = firecrawlUsable firecrawl;
          sources = (if pOk then [''perplexity''] else []) @ (if fOk then [''firecrawl''] else []);
          allResults =
            (if pOk then [perplexityEntry (the perplexity)] else []) @
            (if fOk then map firecrawlEntry (the (fr_successful (the firecrawl))) else []);
          total = (if pOk then 1 else 0) + (if fOk then 1 else 0)
      in \<lparr> cr_query = so_query searchOperation,
           cr_searchId = so_id searchOperation,
           cr_sources = sources,
           cr_allResults = allResults,
           cr_summary =
             \<lparr> totalSources = total,
               perplexityAvailable = pOk,
               firecrawlAvailable = fOk,
               combinedConfidence =
                 (if length allResults > 0
                  then mathRound (of_int (confidenceSum allResults) / of_nat (length allResults))
                  else 0) \<rparr> \<rparr>)"

subsection \<open>executeParallelSearch\<close>

record orchestrator_config =
  cfg_enablePerplexity :: bool
  cfg_enableFirecrawl :: bool
  cfg_maxConcurrentQueries :: int
  cfg_fallbackEnabled :: bool

definition orchestratorConfig :: orchestrator_config where
  "orchestratorConfig =
     \<lparr> cfg_enablePerplexity = True, cfg_enableFirecrawl = True,
       cfg_maxConcurrentQueries = 3, cfg_fallbackEnabled = True \<rparr>"

record search_options =
  opt_enablePerplexity :: "bool option"
  opt_enableFirecrawl :: "bool option"
  opt_maxConcurrent :: "int option"

text \<open>
  What one provider call has done by the time the race of
  \<^verbatim>\<open>Promise.allSettled\<close> against the timer is decided: still running when the
  timer fired, resolved with a value, or rejected with a message.
\<close>

datatype 'a settled = Pending | Resolved 'a | Rejected string

text \<open>The outside world during one call of \<^verbatim>\<open>executeParallelSearch\<close>.\<close>

record invocation =
  inv_searchId :: string
  inv_perplexity :: "perplexity_result settled"
  inv_firecrawl :: "firecrawl_result settled"

datatype sources_field = SourceFlags bool bool | SourceList "string list"

text \<open>What \<^verbatim>\<open>executeParallelSearch\<close> returns, and the entry that
  \<^verbatim>\<open>executeBatchSearch\<close> substitutes when it throws.\<close>

record search_result =
  sr_searchId :: "string option"
  sr_query :: string
  sr_results :: "combined_result option"
  sr_status :: string
  sr_sources :: "sources_field option"
  sr_errors :: "provider_errors option"
  sr_error :: "string option"

definition executePerplexitySearch ::
  "perplexity_result settled \<Rightarrow> search_operation \<Rightarrow> search_operation" where
  "executePerplexitySearch outcome operation =
     (case outcome of
        Resolved result \<Rightarrow> operation\<lparr>so_perplexity := Some result\<rparr>
      | Rejected message \<Rightarrow>
          operation\<lparr>so_errors := (so_errors operation)\<lparr>err_perplexity := Some message\<rparr>\<rparr>
      | Pending \<Rightarrow> operation)"

definition executeFirecrawlSearch ::
  "firecrawl_result settled \<Rightarrow> search_operation \<Rightarrow> search_operation" where
  "executeFirecrawlSearch outcome operation =
     (case outcome of
        Resolved result \<Rightarrow> operation\<lparr>so_firecrawl := Some result\<rparr>
      | Rejected message \<Rightarrow>
          operation\<lparr>so_errors := (so_errors operation)\<lparr>err_firecrawl := Some message\<rparr>\<rparr>
      | Pending \<Rightarrow> operation)"

definition createFallbackResults :: "search_operation \<Rightarrow> search_result option" where
  "createFallbackResults searchOperation =
     (if perplexityUsable (so_perplexity searchOperation)
         \<or> firecrawlUsable (so_firecrawl searchOperation)
      then (let combinedResults = combineSearchResults searchOperation
            in Some \<lparr> sr_searchId = Some (so_id searchOperation),
                      sr_query = so_query searchOperation,
                      sr_results = Some combinedResults,
                      sr_status = ''partial_success'',
                      sr_sources = Some (SourceList (cr_sources combinedResults)),
                      sr_errors = Some (so_errors searchOperation),
                      sr_error = None \<rparr>)
      else None)"

text \<open>The \<^verbatim>\<open>catch\<close> block: the thrown message either comes back as \<open>Inl\<close> or
  is replaced by the fallback record.\<close>

definition failurePath ::
  "orchestrator_config \<Rightarrow> search_operation \<Rightarrow> string \<Rightarrow> string + search_result" where
  "failurePath config operation message =
     (let failed = operation\<lparr>
            so_status := (if sublist ''timeout'' message then ''timeout'' else ''failed''),
            so_error := Some message\<rparr>
      in if cfg_fallbackEnabled config
         then (case createFallbackResults failed of
                 Some fallbackResults \<Rightarrow> Inr fallbackResults
               | None \<Rightarrow> Inl message)
         else Inl message)"

text \<open>The options' toggles, \<^verbatim>\<open>options.enableX ?? this.config.enableX\<close>.\<close>

definition enabledPerplexity :: "orchestrator_config \<Rightarrow> search_options \<Rightarrow> bool" where
  "enabledPerplexity config options =
     (case opt_enablePerplexity options of None \<Rightarrow> cfg_enablePerplexity config | Some b \<Rightarrow> b)"

definition enabledFirecrawl :: "orchestrator_config \<Rightarrow> search_options \<Rightarrow> bool" where
  "enabledFirecrawl config options =
     (case opt_enableFirecrawl options of None \<Rightarrow> cfg_enableFirecrawl config | Some b \<Rightarrow> b)"

text \<open>The timer wins the race exactly when an invoked provider has not settled.\<close>

definition timeoutFires :: "orchestrator_config \<Rightarrow> search_options \<Rightarrow> invocation \<Rightarrow> bool" where
  "timeoutFires config options call =
     ((enabledPerplexity config options \<and> inv_perplexity call = Pending)
      \<or> (enabledFirecrawl config options \<and> inv_firecrawl call = Pending))"

text \<open>The operation record as the provider callbacks have left it when the race is decided.\<close>

definition settledOperation ::
  "orchestrator_config \<Rightarrow> string \<Rightarrow> search_options \<Rightarrow> invocation \<Rightarrow> search_operation" where
  "settledOperation config query options call =
     (let searchOperation =
            \<lparr> so_id = inv_searchId call, so_query = query, so_status = ''in_progress'',
              so_perplexity = None, so_firecrawl = None,
              so_errors = \<lparr> err_perplexity = None, err_firecrawl = None \<rparr>,
              so_error = None \<rparr>;
          afterPerplexity =
            (if enabledPerplexity config options
             then executePerplexitySearch (inv_perplexity call) searchOperation
             else searchOperation)
      in if enabledFirecrawl config options
         then executeFirecrawlSearch (inv_firecrawl call) afterPerplexity
         else afterPerplexity)"

definition executeParallelSearch ::
  "orchestrator_config \<Rightarrow> string \<Rightarrow> search_options \<Rightarrow> invocation \<Rightarrow> string + search_result" where
  "executeParallelSearch config query options call =
     (if \<not> enabledPerplexity config options \<and> \<not> enabledFirecrawl config options
      then failurePath config
             \<lparr> so_id = inv_searchId call, so_query = query, so_status = ''in_progress'',
               so_perplexity = None, so_firecrawl = None,
               so_errors = \<lparr> err_perplexity = None, err_firecrawl = None \<rparr>,
               so_error = None \<rparr>
             ''No search providers enabled''
      else (let searchOperation = settledOperation config query options call
            in if timeoutFires config options call
               then failurePath config searchOperation ''Search timeout''
               else Inr \<lparr> sr_searchId = Some (inv_searchId call),
                         sr_query = query,
                         sr_results = Some (combineSearchResults searchOperation),
                         sr_status = ''completed'',
                         sr_sources = Some (SourceFlags
                           (so_perplexity searchOperation \<noteq> None)
                           (so_firecrawl searchOperation \<noteq> None)),
                         sr_errors = None,
                         sr_error = None \<rparr>))"

subsection \<open>executeBatchSearch\<close>

text \<open>\<^verbatim>\<open>Array.prototype.slice\<close> with integer arguments: a negative index counts
  from the end, both are clamped to the array.\<close>

definition relativeIndex :: "nat \<Rightarrow> int \<Rightarrow> nat" where
  "relativeIndex len k = (if k < 0 then nat (max (int len + k) 0) else min (nat k) len)"

definition jsSlice :: "'a list \<Rightarrow> int \<Rightarrow> int \<Rightarrow> 'a list" where
  "jsSlice xs start end =
     (let s = relativeIndex (length xs) start; e = relativeIndex (length xs) end
      in take (e - s) (drop s xs))"

record batch_result =
  br_queries :: "string list"
  br_results :: "search_result list"
  br_successful :: "search_result list"
  br_failed :: "search_result list"

text \<open>One element of a chunk: the search, with a rejection turned into a failed entry.
  Each query comes paired with what the providers do during its call.\<close>

definition runQuery ::
  "orchestrator_config \<Rightarrow> search_options \<Rightarrow> string \<times> invocation \<Rightarrow> search_result" where
  "runQuery config options qi =
     (case executeParallelSearch config (fst qi) options (snd qi) of
        Inr result \<Rightarrow> result
      | Inl message \<Rightarrow>
          \<lparr> sr_searchId = None, sr_query = fst qi, sr_results = None,
            sr_status = ''failed'', sr_sources = None, sr_errors = None,
            sr_error = Some message \<rparr>)"

text \<open>The chunk loop \<^verbatim>\<open>for (let i = 0; i < queries.length; i += maxConcurrent)\<close>.
  It need not terminate; \<open>None\<close> is the run that never returns.\<close>

partial_function (option) batchLoop ::
  "orchestrator_config \<Rightarrow> search_options \<Rightarrow> int \<Rightarrow> (string \<times> invocation) list \<Rightarrow> int
     \<Rightarrow> search_result list \<Rightarrow> search_result list option" where
  "batchLoop config options maxConcurrent queries i results =
     (if i < int (length queries)
      then batchLoop config options maxConcurrent queries (i + maxConcurrent)
             (results @ map (runQuery config options) (jsSlice queries i (i + maxConcurrent)))
      else Some results)"

declare batchLoop.simps [code]

text \<open>The chunk size, \<^verbatim>\<open>options.maxConcurrent || this.config.maxConcurrentQueries\<close>.\<close>

definition maxConcurrent :: "orchestrator_config \<Rightarrow> search_options \<Rightarrow> int" where
  "maxConcurrent config options =
     (if truthyNum (opt_maxConcurrent options) then the (opt_maxConcurrent options)
      else cfg_maxConcurrentQueries config)"

definition executeBatchSearch ::
  "orchestrator_config \<Rightarrow> (string \<times> invocation) list \<Rightarrow> search_options \<Rightarrow> batch_result option" where
  "executeBatchSearch config queries options =
     map_option
       (\<lambda>results.
          \<lparr> br_queries = map fst queries,
            br_results = results,
            br_successful = filter (\<lambda>r. sr_status r = ''completed'') results,
            br_failed = filter (\<lambda>r. sr_status r \<noteq> ''completed'') results \<rparr>)
       (batchLoop config options (maxConcurrent config options) queries 0 [])"

section \<open>Results processor\<close>

subsection \<open>Strings\<close>

text \<open>
  A string is a list of 8-bit characters, read as the UTF-16 code units U+0000 to
  U+00FF. On these, \<^verbatim>\<open>toLowerCase\<close> maps A-Z and the Latin-1 capitals (U+00C0 to
  U+00DE without the multiplication sign U+00D7) to the letter 32 places further;
  \<^verbatim>\<open>\w\<close> is \<^verbatim>\<open>[A-Za-z0-9_]\<close>; \<^verbatim>\<open>\s\<close> is tab, line feed, vertical tab, form
  feed, carriage return, space and the no-break space U+00A0.
\<close>

definition codeUnit :: "char \<Rightarrow> nat" where
  "codeUnit c = of_char c"

definition isSpaceChar :: "char \<Rightarrow> bool" where
  "isSpaceChar c = (codeUnit c \<in> {9, 10, 11, 12, 13, 32, 160})"

definition isWordChar :: "char \<Rightarrow> bool" where
  "isWordChar c =
     (let n = codeUnit c
      in (48 \<le> n \<and> n \<le> 57) \<or> (65 \<le> n \<and> n \<le> 90) \<or> n = 95 \<or> (97 \<le> n \<and> n \<le> 122))"

definition toLowerChar :: "char \<Rightarrow> char" where
  "toLowerChar c =
     (let n = codeUnit c
      in if (65 \<le> n \<and> n \<le> 90) \<or> (192 \<le> n \<and> n \<le> 222 \<and> n \<noteq> 215)
         then char_of (n + 32) else c)"

definition toLowerCase :: "string \<Rightarrow> string" where
  "toLowerCase text = map toLowerChar text"

text \<open>\<^verbatim>\<open>.replace(/\s+/g, ' ')\<close>: every maximal run of white space becomes one space.\<close>

fun collapseWs :: "string \<Rightarrow> string" where
  "collapseWs [] = []"
| "collapseWs (c # cs) =
     (if isSpaceChar c
      then (if cs \<noteq> [] \<and> isSpaceChar (hd cs) then collapseWs cs
            else CHR '' '' # collapseWs cs)
      else c # collapseWs cs)"

text \<open>\<^verbatim>\<open>.trim()\<close>\<close>

definition jsTrim :: "string \<Rightarrow> string" where
  "jsTrim text = rev (dropWhile isSpaceChar (rev (dropWhile isSpaceChar text)))"

text \<open>\<^verbatim>\<open>.split(/\s+/)\<close>: the pieces between maximal runs of white space; a run at
  either end leaves an empty piece there, and the empty string gives one empty piece.\<close>

fun splitWs :: "string \<Rightarrow> string list" where
  "splitWs [] = [[]]"
| "splitWs (c # cs) =
     (if isSpaceChar c
      then (if cs \<noteq> [] \<and> isSpaceChar (hd cs) then splitWs cs else [] # splitWs cs)
      else (case splitWs cs of w # ws \<Rightarrow> (c # w) # ws | [] \<Rightarrow> [[c]]))"

subsection \<open>normalizeText and calculateSimilarity\<close>

definition normalizeText :: "string \<Rightarrow> string" where
  "normalizeText text =
     jsTrim (collapseWs (filter (\<lambda>c. isWordChar c \<or> isSpaceChar c) (toLowerCase text)))"

definition calculateSimilarity :: "string \<Rightarrow> string \<Rightarrow> rat" where
  "calculateSimilarity str1 str2 =
     (if str1 = str2 then 1
      else if length str1 = 0 \<or> length str2 = 0 then 0
      else (let words1 = splitWs str1;
                words2 = splitWs str2;
                intersection = filter (\<lambda>word. word \<in> set words2) words1;
                union = remdups (words1 @ words2)
            in of_nat (length intersection) / of_nat (length union)))"

text \<open>The Jaccard index of two word lists, as the specification words it: the size of
  the intersection of the two word sets over the size of their union.\<close>

definition jaccardIndex :: "string list \<Rightarrow> string list \<Rightarrow> rat" where
  "jaccardIndex words1 words2 =
     of_nat (card (set words1 \<inter> set words2)) / of_nat (card (set words1 \<union> set words2))"

subsection \<open>Normalized records\<close>

text \<open>
  The record that \<^verbatim>\<open>normalizeResults\<close> builds, with the two fields that
  \<^verbatim>\<open>scoreResults\<close> adds. \<open>nr_timestamp\<close> is the value of
  \<^verbatim>\<open>new Date(result.timestamp)\<close> in milliseconds, \<open>None\<close> for an invalid date;
  \<open>nr_sourceData\<close> is the raw result, of which only the list of its own keys is read.
\<close>

record normalized_record =
  nr_id :: string
  nr_searchId :: string
  nr_query :: string
  nr_source :: string
  nr_sourceUrl :: "string option"
  nr_title :: string
  nr_content :: string
  nr_summary :: string
  nr_relevanceScore :: int
  nr_confidence :: string
  nr_timestamp :: "int option"
  nr_sourceData :: "string list option"
  nr_category :: string
  nr_tags :: "string list"
  nr_qualityScore :: int
  nr_dataFreshness :: string
  nr_freshnessScore :: "int option"
  nr_completenessScore :: "rat option"

subsection \<open>deduplicateResults\<close>

definition dedupThreshold :: rat where
  "dedupThreshold = 8 / 10"

text \<open>The test inside the inner loop, for the record being placed and one accepted record.\<close>

definition isDuplicateOf :: "normalized_record \<Rightarrow> normalized_record \<Rightarrow> bool" where
  "isDuplicateOf result existing =
     (let titleKey = normalizeText (nr_title result);
          contentKey = normalizeText (take 100 (nr_content result));
          existingTitleKey = normalizeText (nr_title existing);
          existingContentKey = normalizeText (take 100 (nr_content existing));
          titleSimilarity = calculateSimilarity titleKey existingTitleKey;
          contentSimilarity = calculateSimilarity contentKey existingContentKey
      in titleSimilarity > dedupThreshold \<or> contentSimilarity > dedupThreshold)"

text \<open>
  The inner loop over \<^verbatim>\<open>deduped\<close>. It stops at the first accepted record that the
  new one duplicates, after overwriting that slot when the new score is strictly
  higher; \<open>None\<close> is the run that ends with \<^verbatim>\<open>isDuplicate\<close> still false.
  (\<^verbatim>\<open>deduped.indexOf(existing)\<close> is the slot the loop is at: an identical object in
  an earlier slot would have stopped the loop there.)
\<close>

fun scanDeduped :: "normalized_record \<Rightarrow> normalized_record list \<Rightarrow> normalized_record list option" where
  "scanDeduped result [] = None"
| "scanDeduped result (existing # rest) =
     (if isDuplicateOf result existing
      then Some ((if nr_relevanceScore result > nr_relevanceScore existing
                  then result else existing) # rest)
      else map_option ((#) existing) (scanDeduped result rest))"

definition dedupStep :: "normalized_record list \<Rightarrow> normalized_record \<Rightarrow> normalized_record list" where
  "dedupStep deduped result =
     (case scanDeduped result deduped of
        Some replaced \<Rightarrow> replaced
      | None \<Rightarrow> deduped @ [result])"

definition deduplicateResults :: "normalized_record list \<Rightarrow> normalized_record list" where
  "deduplicateResults results = foldl dedupStep [] results"

subsection \<open>scoreResults\<close>

text \<open>\<open>now\<close> is the clock reading \<^verbatim>\<open>new Date()\<close> in milliseconds. With an invalid
  timestamp the age is \<^verbatim>\<open>NaN\<close>, every comparison fails and the score is 50.\<close>

definition calculateFreshnessScore :: "int \<Rightarrow> normalized_record \<Rightarrow> int" where
  "calculateFreshnessScore now result =
     (case nr_timestamp result of
        None \<Rightarrow> 50
      | Some resultTime \<Rightarrow>
          (let ageInHours = (of_int (now - resultTime) :: rat) / (1000 * 60 * 60)
           in if ageInHours < 1 then 100
              else if ageInHours < 24 then 90
              else if ageInHours < 168 then 70
              else 50))"

definition completenessFactors :: "normalized_record \<Rightarrow> bool list" where
  "completenessFactors result =
     [ nr_title result \<noteq> [] \<and> nr_title result \<noteq> ''Untitled'',
       nr_content result \<noteq> [] \<and> length (nr_content result) > 50,
       truthyStr (nr_sourceUrl result),
       nr_summary result \<noteq> [] \<and> length (nr_summary result) > 20,
       (case nr_sourceData result of None \<Rightarrow> False | Some keys \<Rightarrow> length keys > 3) ]"

definition calculateCompletenessScore :: "normalized_record \<Rightarrow> rat" where
  "calculateCompletenessScore result =
     (let factors = completenessFactors result;
          completeFactor = length (filter (\<lambda>b. b) factors)
      in (of_nat completeFactor / of_nat (length factors)) * 100)"

definition confidenceScore :: "normalized_record \<Rightarrow> int" where
  "confidenceScore result =
     (if nr_confidence result = ''high'' then 100
      else if nr_confidence result = ''medium'' then 75 else 50)"

definition scoreOne :: "int \<Rightarrow> normalized_record \<Rightarrow> normalized_record" where
  "scoreOne now result =
     (let relevanceScore = nr_relevanceScore result;
          freshnessScore = calculateFreshnessScore now result;
          completenessScore = calculateCompletenessScore result;
          qualityScore = mathRound
            (of_int relevanceScore * (4 / 10) +
             of_int (confidenceScore result) * (3 / 10) +
             of_int freshnessScore * (2 / 10) +
             completenessScore * (1 / 10))
      in result\<lparr> nr_qualityScore := qualityScore,
                 nr_freshnessScore := Some freshnessScore,
                 nr_completenessScore := Some completenessScore \<rparr>)"

text \<open>The mapping followed by the stable sort on \<^verbatim>\<open>b.qualityScore - a.qualityScore\<close>.
  The \<^verbatim>\<open>query\<close> argument is not read.\<close>

definition scoreResults :: "int \<Rightarrow> normalized_record list \<Rightarrow> string \<Rightarrow> normalized_record list" where
  "scoreResults now results query =
     sort_key (\<lambda>r. - nr_qualityScore r) (map (scoreOne now) results)"

subsection \<open>determineCategory\<close>

text \<open>\<^verbatim>\<open>text.match(/a|b|c/)\<close> for alternatives without metacharacters: one of them
  occurs in the text.\<close>

definition matchesAny :: "string list \<Rightarrow> string \<Rightarrow> bool" where
  "matchesAny alternatives text = list_ex (\<lambda>alt. sublist alt text) alternatives"

definition categoryText :: "normalized_record \<Rightarrow> string" where
  "categoryText result =
     (let content = toLowerCase (nr_content result);
          title = toLowerCase (nr_title result)
      in content @ '' '' @ title)"

definition determineCategory :: "normalized_record \<Rightarrow> string" where
  "determineCategory result =
     (let text = categoryText result
      in if matchesAny [''interest rate'', ''fed rate'', ''federal reserve'', ''monetary policy''] text
         then ''interest_rates''
         else if matchesAny [''inflation'', ''cpi'', ''consumer price'', ''price index''] text
         then ''inflation''
         else if matchesAny [''stock'', ''equity'', ''market'', ''dow'', ''nasdaq'', ''s&p''] text
         then ''stock_market''
         else if matchesAny [''gdp'', ''economic growth'', ''recession'', ''economy''] text
         then ''economic_indicators''
         else if matchesAny [''employment'', ''unemployment'', ''jobs'', ''labor''] text
         then ''employment''
         else if matchesAny [''currency'', ''forex'', ''exchange rate'', ''dollar''] text
         then ''currency''
         else ''general_financial'')"

section \<open>Planning service and workflow coordinator\<close>

subsection \<open>Prompt template\<close>

text \<open>
  \<^verbatim>\<open>validateFinancialQuestion\<close> of the module \<^verbatim>\<open>promptTemplate\<close>. The question
  is a string here, so of the first test \<^verbatim>\<open>!question || typeof question !== 'string'\<close>
  the empty string remains. The result object has the property \<^verbatim>\<open>error\<close> or the
  property \<^verbatim>\<open>warning\<close>; \<open>None\<close> is an absent property or \<^verbatim>\<open>null\<close>.
\<close>

record validation =
  v_isValid :: bool
  v_error :: "string option"
  v_warning :: "string option"

definition financialKeywords :: "string list" where
  "financialKeywords =
     [ ''stock'', ''price'', ''ratio'', ''earnings'', ''revenue'', ''profit'', ''investment'',
       ''market'', ''company'', ''financial'', ''valuation'', ''dividend'', ''growth'',
       ''analysis'', ''performance'', ''cash flow'', ''debt'', ''equity'', ''asset'',
       ''return'', ''risk'', ''portfolio'', ''sector'', ''industry'', ''economy'' ]"

definition validateFinancialQuestion :: "string \<Rightarrow> validation" where
  "validateFinancialQuestion question =
     (if question = []
      then \<lparr> v_isValid = False, v_error = Some ''Question must be a non-empty string'',
             v_warning = None \<rparr>
      else (let cleanQuestion = jsTrim question
            in if length cleanQuestion < 5
               then \<lparr> v_isValid = False,
                      v_error = Some ''Question is too short (minimum 5 characters)'',
                      v_warning = None \<rparr>
               else if length cleanQuestion > 500
               then \<lparr> v_isValid = False,
                      v_error = Some ''Question is too long (maximum 500 characters)'',
                      v_warning = None \<rparr>
               else (let hasFinancialKeywords =
                           list_ex (\<lambda>keyword. sublist (toLowerCase keyword)
                                                  (toLowerCase cleanQuestion))
                             financialKeywords
                     in if \<not> hasFinancialKeywords
                        then \<lparr> v_isValid = True, v_error = None,
                               v_warning = Some
                                 ''Question may not be financial-related. Consider rephrasing for better results.'' \<rparr>
                        else \<lparr> v_isValid = True, v_error = None, v_warning = None \<rparr>)))"

text \<open>The message \<^verbatim>\<open>`Invalid question: ${validation.error}`\<close>, thrown by the prompt
  template and by the planning service alike. It is built for a rejected question only,
  and a rejection always carries its message; an absent property would print as
  \<^verbatim>\<open>undefined\<close>.\<close>

definition invalidQuestion :: "validation \<Rightarrow> string" where
  "invalidQuestion validation =
     ''Invalid question: '' @ (case v_error validation of Some message \<Rightarrow> message
                                                       | None \<Rightarrow> ''undefined'')"

text \<open>\<^verbatim>\<open>createFinancialPlanningPrompt\<close>: \<open>Inl\<close> the message of the error thrown. The
  formatted prompt is the fixed template around the trimmed question; it is represented
  by the trimmed question.\<close>

definition createFinancialPlanningPrompt :: "string \<Rightarrow> string + string" where
  "createFinancialPlanningPrompt userQuestion =
     (let validation = validateFinancialQuestion userQuestion
      in if \<not> v_isValid validation then Inl (invalidQuestion validation)
         else Inr (jsTrim userQuestion))"

text \<open>
  The value that \<^verbatim>\<open>JSON.parse\<close> returns, as far as \<^verbatim>\<open>parseResearchPlan\<close> looks at
  it. \<open>jp_originalQuestion\<close> and \<open>jp_researchFocus\<close> are \<open>None\<close> for a property that is
  absent; a property that is present is taken to be a string. The property
  \<^verbatim>\<open>subQuestions\<close> is falsy, or a truthy value that is not an array, or an array whose
  elements are strings or other values.
\<close>

datatype json_element = JString string | JOther

datatype json_property = Falsy | NotAnArray | Elements "json_element list"

record json_plan =
  jp_originalQuestion :: "string option"
  jp_subQuestions :: json_property
  jp_researchFocus :: "string option"

record parsed_plan =
  pp_originalQuestion :: string
  pp_subQuestions :: "string list"
  pp_researchFocus :: string

text \<open>\<^verbatim>\<open>Array.prototype.join\<close> with the separator \<^verbatim>\<open>', '\<close>.\<close>

fun joinFields :: "string list \<Rightarrow> string" where
  "joinFields [] = []"
| "joinFields [field] = field"
| "joinFields (field # others) = field @ '', '' @ joinFields others"

definition invalidSubQuestion :: "json_element \<Rightarrow> bool" where
  "invalidSubQuestion q = (case q of JString s \<Rightarrow> length (jsTrim s) = 0 | JOther \<Rightarrow> True)"

definition stringOf :: "json_element \<Rightarrow> string" where
  "stringOf q = (case q of JString s \<Rightarrow> s | JOther \<Rightarrow> [])"

text \<open>
  \<^verbatim>\<open>parseResearchPlan\<close>. The text handed to \<^verbatim>\<open>JSON.parse\<close> is the response trimmed and
  without its code fences; \<open>jsonParse\<close> is \<^verbatim>\<open>JSON.parse\<close> after that cleaning, \<open>Inl\<close>
  the message of its syntax error (or of the type error that reading a property of
  \<^verbatim>\<open>null\<close> raises). Every error of the body is caught and thrown again with the
  prefix \<^verbatim>\<open>Failed to parse research plan: \<close>.
\<close>

definition parseResearchPlan :: "(string \<Rightarrow> string + json_plan) \<Rightarrow> string \<Rightarrow> string + parsed_plan" where
  "parseResearchPlan jsonParse response =
     (case jsonParse response of
        Inl message \<Rightarrow> Inl (''Failed to parse research plan: '' @ message)
      | Inr parsedPlan \<Rightarrow>
          (let missingFields =
                 (if \<not> truthyStr (jp_originalQuestion parsedPlan) then [''originalQuestion''] else [])
                 @ (if jp_subQuestions parsedPlan = Falsy then [''subQuestions''] else [])
                 @ (if \<not> truthyStr (jp_researchFocus parsedPlan) then [''researchFocus''] else [])
           in if length missingFields > 0
              then Inl (''Failed to parse research plan: '' @ ''Missing required fields: ''
                          @ joinFields missingFields)
              else (case jp_subQuestions parsedPlan of
                      Elements subQuestions \<Rightarrow>
                        if length subQuestions < 2 \<or> length subQuestions > 4
                        then Inl (''Failed to parse research plan: ''
                                    @ ''Must have 2-4 sub-questions'')
                        else if length (filter invalidSubQuestion subQuestions) > 0
                        then Inl (''Failed to parse research plan: ''
                                    @ ''All sub-questions must be non-empty strings'')
                        else Inr \<lparr> pp_originalQuestion = the (jp_originalQuestion parsedPlan),
                                   pp_subQuestions = map stringOf subQuestions,
                                   pp_researchFocus = the (jp_researchFocus parsedPlan) \<rparr>
                    | _ \<Rightarrow> Inl (''Failed to parse research plan: ''
                                  @ ''subQuestions must be an array''))))"

subsection \<open>Planning service\<close>

text \<open>
  What lies outside the program when a plan is generated: \<open>pw_modelError\<close> is the
  message with which \<^verbatim>\<open>getGeminiModel\<close> throws, if it does; \<open>pw_invoke\<close> is the call
  \<^verbatim>\<open>model.invoke\<close> together with the read of \<^verbatim>\<open>response.content.length\<close>, from the
  prompt to the content of the response or to the message of the error; \<open>pw_jsonParse\<close>
  is \<^verbatim>\<open>JSON.parse\<close> as above.
\<close>

record planning_world =
  pw_modelError :: "string option"
  pw_invoke :: "string \<Rightarrow> string + string"
  pw_jsonParse :: "string \<Rightarrow> string + json_plan"

text \<open>In a plan \<open>rp_subQuestions = None\<close> is a value that is not an array; the planning
  service never produces it, the coordinator tests for it.\<close>

record research_plan =
  rp_originalQuestion :: string
  rp_subQuestions :: "string list option"
  rp_researchFocus :: string
  rp_status :: string
  rp_error :: "string option"
  rp_subQuestionCount :: nat

text \<open>The body of the \<^verbatim>\<open>try\<close> block of \<^verbatim>\<open>generateResearchPlan\<close> up to the parsed
  plan: \<open>Inl\<close> the message of the first error thrown.\<close>

definition requestPlan :: "planning_world \<Rightarrow> string \<Rightarrow> string + parsed_plan" where
  "requestPlan world userQuestion =
     (case pw_modelError world of
        Some message \<Rightarrow> Inl message
      | None \<Rightarrow>
          (case createFinancialPlanningPrompt userQuestion of
             Inl message \<Rightarrow> Inl message
           | Inr prompt \<Rightarrow>
               (case pw_invoke world prompt of
                  Inl message \<Rightarrow> Inl message
                | Inr content \<Rightarrow> parseResearchPlan (pw_jsonParse world) content)))"

definition fallbackPlan :: "string \<Rightarrow> string \<Rightarrow> research_plan" where
  "fallbackPlan userQuestion message =
     \<lparr> rp_originalQuestion = userQuestion,
       rp_subQuestions = Some
         [ ''Research the basic information about: '' @ userQuestion,
           ''Find recent data and metrics related to: '' @ userQuestion,
           ''Analyze the context and implications of: '' @ userQuestion ],
       rp_researchFocus = ''General research approach due to planning system error'',
       rp_status = ''fallback'',
       rp_error = Some message,
       rp_subQuestionCount = 3 \<rparr>"

definition generateResearchPlan :: "planning_world \<Rightarrow> string \<Rightarrow> research_plan" where
  "generateResearchPlan world userQuestion =
     (case requestPlan world userQuestion of
        Inr parsedPlan \<Rightarrow>
          \<lparr> rp_originalQuestion = pp_originalQuestion parsedPlan,
            rp_subQuestions = Some (pp_subQuestions parsedPlan),
            rp_researchFocus = pp_researchFocus parsedPlan,
            rp_status = ''completed'',
            rp_error = None,
            rp_subQuestionCount = length (pp_subQuestions parsedPlan) \<rparr>
      | Inl message \<Rightarrow> fallbackPlan userQuestion message)"

definition planFinancialResearch :: "planning_world \<Rightarrow> string \<Rightarrow> string + research_plan" where
  "planFinancialResearch world userQuestion =
     (let validation = validateFinancialQuestion userQuestion
      in if \<not> v_isValid validation then Inl (invalidQuestion validation)
         else Inr (generateResearchPlan world userQuestion))"

subsection \<open>Workflow coordinator\<close>

record service_config =
  sc_enablePlanning :: bool
  sc_enableSearch :: bool
  sc_enableResultsProcessing :: bool
  sc_maxSubQuestions :: int

definition serviceConfig :: service_config where
  "serviceConfig =
     \<lparr> sc_enablePlanning = True, sc_enableSearch = True,
       sc_enableResultsProcessing = True, sc_maxSubQuestions = 5 \<rparr>"

record service_options =
  fo_enablePlanning :: "bool option"
  fo_enableSearch :: "bool option"
  fo_enableResultsProcessing :: "bool option"
  fo_maxConcurrent :: "int option"
  fo_enablePerplexity :: "bool option"
  fo_enableFirecrawl :: "bool option"

record planning_step =
  ps_success :: bool
  ps_subQuestions :: "string list"
  ps_error :: "string option"
  ps_fallback :: "bool option"
  ps_note :: "string option"
  ps_originalPlan :: "research_plan option"

text \<open>The step recorded by the \<^verbatim>\<open>catch\<close> of the planning block.\<close>

definition planningFallback :: "string \<Rightarrow> string \<Rightarrow> string list \<times> planning_step" where
  "planningFallback userQuery message =
     (let subQuestions = [userQuery]
      in (subQuestions,
          \<lparr> ps_success = False, ps_subQuestions = subQuestions, ps_error = Some message,
            ps_fallback = Some True, ps_note = None, ps_originalPlan = None \<rparr>))"

text \<open>Step 1 of \<^verbatim>\<open>executeFinancialSearch\<close>: the sub-questions handed to the search
  phase and the entry \<^verbatim>\<open>workflow.steps.planning\<close>.\<close>

definition planningPhase ::
  "service_config \<Rightarrow> service_options \<Rightarrow> planning_world \<Rightarrow> string
     \<Rightarrow> string list \<times> planning_step" where
  "planningPhase config options planning userQuery =
     (if sc_enablePlanning config \<and> fo_enablePlanning options \<noteq> Some False
      then (case planFinancialResearch planning userQuery of
              Inr planningResult \<Rightarrow>
                (case rp_subQuestions planningResult of
                   Some planned \<Rightarrow>
                     (let subQuestions = jsSlice planned 0 (sc_maxSubQuestions config)
                      in (subQuestions,
                          \<lparr> ps_success = True, ps_subQuestions = subQuestions, ps_error = None,
                            ps_fallback = None, ps_note = None,
                            ps_originalPlan = Some planningResult \<rparr>))
                 | None \<Rightarrow> planningFallback userQuery ''Invalid planning result structure'')
            | Inl message \<Rightarrow> planningFallback userQuery message)
      else ([userQuery],
            \<lparr> ps_success = True, ps_subQuestions = [userQuery], ps_error = None,
              ps_fallback = None,
              ps_note = Some ''Planning disabled - using original query'',
              ps_originalPlan = None \<rparr>))"

text \<open>The world of the search phase: what the providers do during the call for the
  sub-question at a given position.\<close>

definition attach :: "(nat \<Rightarrow> string \<Rightarrow> invocation) \<Rightarrow> string list \<Rightarrow> (string \<times> invocation) list" where
  "attach world subQuestions = map (\<lambda>(i, q). (q, world i q)) (enumerate 0 subQuestions)"

text \<open>Step 2: \<open>Some (Inl message)\<close> is the search error that the outer \<^verbatim>\<open>catch\<close>
  receives, \<open>None\<close> a batch search that never returns.\<close>

definition searchPhase ::
  "service_config \<Rightarrow> orchestrator_config \<Rightarrow> service_options
     \<Rightarrow> (nat \<Rightarrow> string \<Rightarrow> invocation) \<Rightarrow> string list \<Rightarrow> (string + batch_result) option" where
  "searchPhase config orchestrator options world subQuestions =
     (if sc_enableSearch config \<and> fo_enableSearch options \<noteq> Some False
      then (if length subQuestions = 1
            then (case executeParallelSearch orchestrator (hd subQuestions)
                         \<lparr> opt_enablePerplexity = fo_enablePerplexity options,
                           opt_enableFirecrawl = fo_enableFirecrawl options,
                           opt_maxConcurrent = None \<rparr>
                         (world 0 (hd subQuestions)) of
                    Inr searchResults \<Rightarrow>
                      Some (Inr \<lparr> br_queries = subQuestions,
                                  br_results = [searchResults],
                                  br_successful = [searchResults],
                                  br_failed = [] \<rparr>)
                  | Inl message \<Rightarrow> Some (Inl message))
            else map_option Inr
                   (executeBatchSearch orchestrator (attach world subQuestions)
                      \<lparr> opt_enablePerplexity = fo_enablePerplexity options,
                        opt_enableFirecrawl = fo_enableFirecrawl options,
                        opt_maxConcurrent = Some
                          (if truthyNum (fo_maxConcurrent options)
                           then the (fo_maxConcurrent options) else 3) \<rparr>))
      else Some (Inl ''Search is disabled''))"

record service_combined =
  sv_searchId :: string
  sv_query :: string
  sv_status :: string
  sv_perplexity :: bool
  sv_firecrawl :: bool
  sv_allResults :: "combined_entry list"

text \<open>\<^verbatim>\<open>combineSearchResults\<close> of the coordinator (the orchestrator has a method of
  the same name).\<close>

definition combineSearchResults_service ::
  "batch_result \<Rightarrow> string \<Rightarrow> string \<Rightarrow> service_combined" where
  "combineSearchResults_service batchResults originalQuery searchId =
     (let allResults = concat (map
            (\<lambda>searchResult. case sr_results searchResult of
                               Some combined \<Rightarrow> cr_allResults combined
                             | None \<Rightarrow> [])
            (br_successful batchResults))
      in \<lparr> sv_searchId = searchId,
           sv_query = originalQuery,
           sv_status = ''completed'',
           sv_perplexity = list_ex (\<lambda>r. ce_source r = ''perplexity'') allResults,
           sv_firecrawl = list_ex (\<lambda>r. ce_source r = ''firecrawl'') allResults,
           sv_allResults = allResults \<rparr>)"

record fallback_item =
  fb_source :: string
  fb_title :: string
  fb_content :: string
  fb_url :: "string option"
  fb_relevanceScore :: int

record fallback_results =
  fbr_total :: nat
  fbr_items :: "fallback_item list"
  fbr_sourcesUsed :: "string list"

text \<open>\<^verbatim>\<open>createFallbackResults\<close> of the coordinator. An element of
  \<^verbatim>\<open>allResults\<close> has no \<^verbatim>\<open>data\<close> property, so of each chain
  \<^verbatim>\<open>item.x || item.data?.x || default\<close> the first and the last link remain.\<close>

definition createFallbackResults_service ::
  "batch_result \<Rightarrow> string \<Rightarrow> string \<Rightarrow> fallback_results" where
  "createFallbackResults_service searchResults userQuery searchId =
     (let allResults = concat (map
            (\<lambda>result. case sr_results result of
                         Some combined \<Rightarrow>
                           map (\<lambda>item.
                                  \<lparr> fb_source = ce_source item,
                                    fb_title = (if truthyStr (ce_title item)
                                                then the (ce_title item) else ''Search Result''),
                                    fb_content = (if truthyStr (ce_content item)
                                                  then the (ce_content item)
                                                  else ''No content available''),
                                    fb_url = (if truthyStr (ce_url item) then ce_url item else None),
                                    fb_relevanceScore =
                                      (if truthyNum (ce_relevanceScore item)
                                       then the (ce_relevanceScore item) else 50) \<rparr>)
                               (cr_allResults combined)
                       | None \<Rightarrow> [])
            (br_successful searchResults))
      in \<lparr> fbr_total = length allResults,
           fbr_items = allResults,
           fbr_sourcesUsed = rev (remdups (rev (map fb_source allResults))) \<rparr>)"

record processing_step =
  pcs_success :: bool
  pcs_error :: "string option"
  pcs_note :: "string option"

datatype 'p final_results = Processed 'p | FallbackResults fallback_results

text \<open>
  Step 3. The pipeline \<^verbatim>\<open>resultsProcessor.processSearchResults\<close> is a parameter
  (its stages are modelled one by one above): \<open>Some\<close> the structured output, \<open>None\<close>
  the error output of its own \<^verbatim>\<open>catch\<close>, which has no \<^verbatim>\<open>categories\<close>, so that
  the coordinator's \<^verbatim>\<open>Object.keys\<close> throws. The counts copied into the step entry
  are left out.
\<close>

definition processingPhase ::
  "service_config \<Rightarrow> service_options \<Rightarrow> (service_combined \<Rightarrow> 'p option)
     \<Rightarrow> batch_result \<Rightarrow> string \<Rightarrow> string \<Rightarrow> 'p final_results \<times> processing_step" where
  "processingPhase config options processSearchResults searchResults userQuery searchId =
     (if sc_enableResultsProcessing config \<and> fo_enableResultsProcessing options \<noteq> Some False
      then (case processSearchResults
                   (combineSearchResults_service searchResults userQuery searchId) of
              Some finalResults \<Rightarrow>
                (Processed finalResults,
                 \<lparr> pcs_success = True, pcs_error = None, pcs_note = None \<rparr>)
            | None \<Rightarrow>
                (FallbackResults (createFallbackResults_service searchResults userQuery searchId),
                 \<lparr> pcs_success = False,
                   pcs_error = Some ''Cannot convert undefined or null to object'',
                   pcs_note = None \<rparr>))
      else (FallbackResults (createFallbackResults_service searchResults userQuery searchId),
            \<lparr> pcs_success = True, pcs_error = None,
              pcs_note = Some ''Results processing disabled - returning raw results'' \<rparr>))"

record searching_step =
  ss_success :: bool
  ss_totalQueries :: nat
  ss_successful :: nat
  ss_failed :: nat

record workflow_steps =
  ws_planning :: planning_step
  ws_searching :: searching_step
  ws_processing :: processing_step

text \<open>
  The response of \<^verbatim>\<open>executeFinancialSearch\<close>. The response of the outer
  \<^verbatim>\<open>catch\<close> has an empty result block and a \<^verbatim>\<open>workflow\<close> object without
  \<^verbatim>\<open>steps\<close> and without \<^verbatim>\<open>status\<close>: there \<open>rs_results\<close>, \<open>rs_steps\<close> and
  \<open>rs_workflowStatus\<close> are \<open>None\<close>.
\<close>

record 'p response =
  rs_results :: "'p final_results option"
  rs_error :: "string option"
  rs_steps :: "workflow_steps option"
  rs_workflowStatus :: "string option"

definition executeFinancialSearch ::
  "service_config \<Rightarrow> orchestrator_config \<Rightarrow> planning_world
     \<Rightarrow> (nat \<Rightarrow> string \<Rightarrow> invocation) \<Rightarrow> (service_combined \<Rightarrow> 'p option)
     \<Rightarrow> string \<Rightarrow> string \<Rightarrow> service_options \<Rightarrow> 'p response option" where
  "executeFinancialSearch config orchestrator planning world processSearchResults
       searchId userQuery options =
     (let (subQuestions, planningStep) = planningPhase config options planning userQuery
      in case searchPhase config orchestrator options world subQuestions of
           None \<Rightarrow> None
         | Some (Inl message) \<Rightarrow>
             Some \<lparr> rs_results = None, rs_error = Some message, rs_steps = None,
                    rs_workflowStatus = None \<rparr>
         | Some (Inr searchResults) \<Rightarrow>
             (let (finalResults, processing) =
                    processingPhase config options processSearchResults searchResults
                      userQuery searchId
              in Some \<lparr> rs_results = Some finalResults,
                        rs_error = None,
                        rs_steps = Some
                          \<lparr> ws_planning = planningStep,
                            ws_searching =
                              \<lparr> ss_success = True,
                                ss_totalQueries = length (br_results searchResults),
                                ss_successful = length (br_successful searchResults),
                                ss_failed = length (br_failed searchResults) \<rparr>,
                            ws_processing = processing \<rparr>,
                        rs_workflowStatus = Some ''completed'' \<rparr>))"

section \<open>The specification's formulas\<close>

text \<open>The combined confidence as the specification words it: the rounded mean over all
  entries of 90 if the confidence is \<^verbatim>\<open>high\<close>, else the numeric relevance score if
  present, else 50.\<close>

definition specifiedEntryConfidence :: "combined_entry \<Rightarrow> int" where
  "specifiedEntryConfidence e =
     (if ce_confidence e = Some ''high'' then 90
      else (case ce_relevanceScore e of Some score \<Rightarrow> score | None \<Rightarrow> 50))"

definition specifiedCombinedConfidence :: "combined_entry list \<Rightarrow> int" where
  "specifiedCombinedConfidence es =
     mathRound (of_int (sum_list (map specifiedEntryConfidence es)) / of_nat (length es))"

section \<open>Conditions used in the statements\<close>

text \<open>The error record of \<^verbatim>\<open>searchWithPerplexity\<close> carries \<^verbatim>\<open>error.message\<close> of
  what was thrown. Input condition: a message, when there is one, is not the empty string
  (with an empty one \<^verbatim>\<open>!perplexity.error\<close> holds and the record counts as usable).\<close>

definition messagesNonEmpty :: "invocation \<Rightarrow> bool" where
  "messagesNonEmpty call =
     (case inv_perplexity call of Resolved p \<Rightarrow> pr_error p \<noteq> Some [] | _ \<Rightarrow> True)"

text \<open>A list in which no record duplicates a record before it, the test being the one of
  the inner loop (new record first, accepted record second); \<open>accepted\<close> is the part
  of the list already passed.\<close>

fun noEarlierDuplicateFrom :: "normalized_record list \<Rightarrow> normalized_record list \<Rightarrow> bool" where
  "noEarlierDuplicateFrom accepted [] = True"
| "noEarlierDuplicateFrom accepted (r # rs) =
     ((\<forall>e \<in> set accepted. \<not> isDuplicateOf r e) \<and> noEarlierDuplicateFrom (accepted @ [r]) rs)"

definition noEarlierDuplicate :: "normalized_record list \<Rightarrow> bool" where
  "noEarlierDuplicate rs = noEarlierDuplicateFrom [] rs"

section \<open>Concrete inputs\<close>

text \<open>A search in which Firecrawl scraped one page that contains none of the query's
  words, so that \<^verbatim>\<open>calculateRelevanceScore\<close> gave it 0, and Perplexity was off.\<close>

definition zeroScoreOperation :: search_operation where
  "zeroScoreOperation =
     \<lparr> so_id = ''search_1'', so_query = ''Federal Reserve interest rate'',
       so_status = ''in_progress'', so_perplexity = None,
       so_firecrawl = Some \<lparr> fr_successful = Some
         [ \<lparr> fi_data = Some \<lparr> fd_title = Some ''No title'', fd_url = Some ''Unknown URL'',
               fd_content = Some ''No content extracted'', fd_relevanceScore = Some 0,
               fd_extractedData = None \<rparr> \<rparr> ] \<rparr>,
       so_errors = \<lparr> err_perplexity = None, err_firecrawl = None \<rparr>,
       so_error = None \<rparr>"

text \<open>The scenario of the specification: Perplexity answers with confidence
  \<^verbatim>\<open>high\<close>, Firecrawl with two pages of relevance 95 and 80.\<close>

definition scenarioOperation :: search_operation where
  "scenarioOperation =
     \<lparr> so_id = ''search_2'', so_query = ''Federal Reserve interest rate'',
       so_status = ''in_progress'',
       so_perplexity = Some \<lparr> pr_content = Some ''The federal funds rate is 5.25%-5.50%.'',
         pr_error = None, pr_confidence = ''high'', pr_searchId = ''pplx_1'' \<rparr>,
       so_firecrawl = Some \<lparr> fr_successful = Some
         [ \<lparr> fi_data = Some \<lparr> fd_title = Some ''Federal Reserve Rate Decision'',
               fd_url = Some ''https://www.federalreserve.gov/'',
               fd_content = Some ''The FOMC decided to maintain the target range.'',
               fd_relevanceScore = Some 95, fd_extractedData = None \<rparr> \<rparr>,
           \<lparr> fi_data = Some \<lparr> fd_title = Some ''Fed Rate Decision'',
               fd_url = Some ''https://example.com/fed-rates'',
               fd_content = Some ''The FOMC decided to maintain the rate.'',
               fd_relevanceScore = Some 80, fd_extractedData = None \<rparr> \<rparr> ] \<rparr>,
       so_errors = \<lparr> err_perplexity = None, err_firecrawl = None \<rparr>,
       so_error = None \<rparr>"

text \<open>A call without options, so that the configuration decides.\<close>

definition noOptions :: search_options where
  "noOptions = \<lparr> opt_enablePerplexity = None, opt_enableFirecrawl = None, opt_maxConcurrent = None \<rparr>"

text \<open>A successful Perplexity answer.\<close>

definition answeredPerplexity :: perplexity_result where
  "answeredPerplexity =
     \<lparr> pr_content = Some ''The federal funds rate is 5.25%-5.50%.'', pr_error = None,
       pr_confidence = ''high'', pr_searchId = ''pplx_1'' \<rparr>"

text \<open>Perplexity has answered, Firecrawl is still running when the timer fires.\<close>

definition firecrawlHangs :: invocation where
  "firecrawlHangs =
     \<lparr> inv_searchId = ''search_3'', inv_perplexity = Resolved answeredPerplexity,
       inv_firecrawl = Pending \<rparr>"

text \<open>The default configuration with \<^verbatim>\<open>fallbackEnabled: false\<close>.\<close>

definition noFallbackConfig :: orchestrator_config where
  "noFallbackConfig = orchestratorConfig\<lparr> cfg_fallbackEnabled := False \<rparr>"

text \<open>A Firecrawl extraction with one page.\<close>

definition scrapedPages :: firecrawl_result where
  "scrapedPages =
     \<lparr> fr_successful = Some
         [ \<lparr> fi_data = Some \<lparr> fd_title = Some ''Federal Reserve Rate Decision'',
               fd_url = Some ''https://www.federalreserve.gov/'',
               fd_content = Some ''The FOMC decided to maintain the target range.'',
               fd_relevanceScore = Some 95, fd_extractedData = None \<rparr> \<rparr> ] \<rparr>"

text \<open>Both providers answer before the timer fires.\<close>

definition bothAnswer :: invocation where
  "bothAnswer =
     \<lparr> inv_searchId = ''search_4'', inv_perplexity = Resolved answeredPerplexity,
       inv_firecrawl = Resolved scrapedPages \<rparr>"

text \<open>A Perplexity call that failed with an error whose message is empty, while
  Firecrawl is still running when the timer fires.\<close>

definition emptyMessageCall :: invocation where
  "emptyMessageCall =
     \<lparr> inv_searchId = ''search_6'',
       inv_perplexity = Resolved
         \<lparr> pr_content = None, pr_error = Some [], pr_confidence = ''failed'',
           pr_searchId = ''pplx_error_1'' \<rparr>,
       inv_firecrawl = Pending \<rparr>"

text \<open>Neither provider has settled when the timer fires.\<close>

definition bothHang :: invocation where
  "bothHang = \<lparr> inv_searchId = ''search_5'', inv_perplexity = Pending, inv_firecrawl = Pending \<rparr>"

text \<open>Normalized records for the examples: two titles and two contents without a common
  word, combined freely, with a relevance score.\<close>

definition exampleRecord :: "string \<Rightarrow> string \<Rightarrow> int \<Rightarrow> normalized_record" where
  "exampleRecord title content score =
     \<lparr> nr_id = ''result_0'', nr_searchId = ''search_1'', nr_query = ''fed decision'',
       nr_source = ''firecrawl'', nr_sourceUrl = None, nr_title = title, nr_content = content,
       nr_summary = content, nr_relevanceScore = score, nr_confidence = ''medium'',
       nr_timestamp = None, nr_sourceData = None, nr_category = ''uncategorized'',
       nr_tags = [], nr_qualityScore = 0, nr_dataFreshness = ''unknown'',
       nr_freshnessScore = None, nr_completenessScore = None \<rparr>"

definition fedTitle :: string where
  "fedTitle = ''Fed holds rates steady''"

definition marketTitle :: string where
  "marketTitle = ''Markets rally after decision''"

definition fedContent :: string where
  "fedContent = ''The Federal Reserve left rates unchanged.''"

definition marketContent :: string where
  "marketContent = ''Stocks rose sharply on Wednesday.''"

text \<open>The degenerate normalized record: every string empty, no URL, no raw data, an
  unparsable timestamp, relevance 0, and the defaults of \<^verbatim>\<open>normalizeResults\<close>.\<close>

definition emptyRecord :: normalized_record where
  "emptyRecord =
     \<lparr> nr_id = [], nr_searchId = [], nr_query = [], nr_source = [], nr_sourceUrl = None,
       nr_title = [], nr_content = [], nr_summary = [], nr_relevanceScore = 0,
       nr_confidence = ''low'', nr_timestamp = None, nr_sourceData = None,
       nr_category = ''uncategorized'', nr_tags = [], nr_qualityScore = 0,
       nr_dataFreshness = ''unknown'', nr_freshnessScore = None,
       nr_completenessScore = None \<rparr>"

text \<open>A record of high confidence, half an hour old at the clock reading 1700000000000,
  for which all five completeness checks hold; and a record of medium confidence, two
  days old, for which only the URL check holds.\<close>

definition fullRecord :: normalized_record where
  "fullRecord =
     \<lparr> nr_id = ''result_1'', nr_searchId = ''search_7'', nr_query = ''fed decision'',
       nr_source = ''firecrawl'',
       nr_sourceUrl = Some ''https://www.federalreserve.gov/newsevents.htm'',
       nr_title = ''Federal Reserve issues FOMC statement'',
       nr_content = ''The Committee decided to maintain the target range for the federal funds rate.'',
       nr_summary = ''The target range is maintained.'',
       nr_relevanceScore = 95, nr_confidence = ''high'',
       nr_timestamp = Some 1699998200000,
       nr_sourceData = Some [''url'', ''success'', ''data'', ''metadata'', ''timestamp''],
       nr_category = ''uncategorized'', nr_tags = [], nr_qualityScore = 0,
       nr_dataFreshness = ''unknown'', nr_freshnessScore = None,
       nr_completenessScore = None \<rparr>"

definition agedRecord :: normalized_record where
  "agedRecord =
     \<lparr> nr_id = ''result_2'', nr_searchId = ''search_7'', nr_query = ''fed decision'',
       nr_source = ''firecrawl'', nr_sourceUrl = Some ''https://example.com/rates'',
       nr_title = ''Untitled'',
       nr_content = ''Rates were left unchanged.'',
       nr_summary = ''Rates unchanged.'',
       nr_relevanceScore = 65, nr_confidence = ''medium'',
       nr_timestamp = Some 1699827200000,
       nr_sourceData = Some [''query'', ''content''],
       nr_category = ''uncategorized'', nr_tags = [], nr_qualityScore = 0,
       nr_dataFreshness = ''unknown'', nr_freshnessScore = None,
       nr_completenessScore = None \<rparr>"

text \<open>Records for the categorisation: without any keyword; with keywords of two
  categories; with a title in capitals; with a keyword that has a character outside the
  letters; with a keyword that spans the end of the content and the start of the
  title.\<close>

definition newsRecord :: normalized_record where
  "newsRecord = exampleRecord ''Morning briefing'' ''random financial news'' 50"

definition outlookRecord :: normalized_record where
  "outlookRecord = exampleRecord ''Outlook'' ''Inflation data and the Fed rate path'' 50"

definition headlineRecord :: normalized_record where
  "headlineRecord = exampleRecord ''FEDERAL RESERVE holds'' ''No change this month.'' 50"

definition indexRecord :: normalized_record where
  "indexRecord = exampleRecord ''S&P 500 and GDP'' ''Weekly summary'' 50"

definition splitRecord :: normalized_record where
  "splitRecord = exampleRecord ''Rate cut ahead?'' ''Rising interest'' 50"

text \<open>A batch of three queries: both providers answer the first, Firecrawl hangs on the
  second, both hang on the third.\<close>

definition batchQueries :: "(string \<times> invocation) list" where
  "batchQueries =
     [ (''Current US Federal Reserve interest rate'', bothAnswer),
       (''Latest inflation data United States'', firecrawlHangs),
       (''Stock market performance today'', bothHang) ]"

text \<open>Inputs for the examples of the workflow: a planning model whose call fails and
  one that answers with a plan of two sub-questions, worlds in which every provider call
  answers or hangs, a results pipeline that returns the number of entries, and a call
  without options.\<close>

definition modelFails :: planning_world where
  "modelFails =
     \<lparr> pw_modelError = None,
       pw_invoke = (\<lambda>prompt. Inl ''API key not valid''),
       pw_jsonParse = (\<lambda>content. Inl ''Unexpected end of JSON input'') \<rparr>"

definition modelAnswers :: planning_world where
  "modelAnswers =
     \<lparr> pw_modelError = None,
       pw_invoke = (\<lambda>prompt. Inr ''{...}''),
       pw_jsonParse = (\<lambda>content. Inr
         \<lparr> jp_originalQuestion = Some ''What is the stock price of Tesla?'',
           jp_subQuestions = Elements
             [ JString ''What is the current stock price of Tesla?'',
               JString ''How did the Tesla stock move this year?'' ],
           jp_researchFocus = Some ''Price and trend'' \<rparr>) \<rparr>"

definition allAnswer :: "nat \<Rightarrow> string \<Rightarrow> invocation" where
  "allAnswer i question = bothAnswer"

definition allHang :: "nat \<Rightarrow> string \<Rightarrow> invocation" where
  "allHang i question = bothHang"

definition countEntries :: "service_combined \<Rightarrow> nat option" where
  "countEntries combined = Some (length (sv_allResults combined))"

definition noServiceOptions :: service_options where
  "noServiceOptions =
     \<lparr> fo_enablePlanning = None, fo_enableSearch = None, fo_enableResultsProcessing = None,
       fo_maxConcurrent = None, fo_enablePerplexity = None, fo_enableFirecrawl = None \<rparr>"

section \<open>Properties of the search orchestrator\<close>

subsection \<open>combineSearchResults\<close>

lemma confidenceSum_sum_list: "confidenceSum es = sum_list (map entryConfidence es)"
proof -
  have "foldl (\<lambda>sum result. sum + entryConfidence result) a es
          = a + sum_list (map entryConfidence es)" for a
    by (induction es arbitrary: a) simp_all
  then show ?thesis by (simp add: confidenceSum_def)
qed

text \<open>On entries whose relevance score is not 0 the summand is the specified one.\<close>

lemma entryConfidence_specified:
  "ce_relevanceScore e \<noteq> Some 0 \<Longrightarrow> entryConfidence e = specifiedEntryConfidence e"
  by (simp add: entryConfidence_def specifiedEntryConfidence_def truthyNum_def
      split: option.splits)

lemma combinedConfidence_specified:
  assumes "\<forall>e \<in> set (cr_allResults (combineSearchResults operation)). ce_relevanceScore e \<noteq> Some 0"
    and "cr_allResults (combineSearchResults operation) \<noteq> []"
  shows "combinedConfidence (cr_summary (combineSearchResults operation))
           = specifiedCombinedConfidence (cr_allResults (combineSearchResults operation))"
proof -
  let ?all = "cr_allResults (combineSearchResults operation)"
  have "map entryConfidence ?all = map specifiedEntryConfidence ?all"
    using assms(1) by (simp add: entryConfidence_specified)
  moreover have "combinedConfidence (cr_summary (combineSearchResults operation))
      = mathRound (of_int (confidenceSum ?all) / of_nat (length ?all))"
    using assms(2) by (simp add: combineSearchResults_def Let_def)
  ultimately show ?thesis
    unfolding specifiedCombinedConfidence_def confidenceSum_sum_list by (simp only:)
qed

text \<open>The scenario of the specification: two sources, three entries, confidence
  \<open>round ((90 + 95 + 80) / 3) = 88\<close>.\<close>

lemma combineSearchResults_scenario:
  "length (cr_sources (combineSearchResults scenarioOperation)) = 2
   \<and> length (cr_allResults (combineSearchResults scenarioOperation)) = 3
   \<and> combinedConfidence (cr_summary (combineSearchResults scenarioOperation)) = 88"
  by (simp add: combineSearchResults_def scenarioOperation_def perplexityUsable_def
      firecrawlUsable_def firecrawlEntry_def perplexityEntry_def dataField_def confidenceSum_def
      entryConfidence_def truthyNum_def truthyStr_def mathRound_def floor_eq_iff)

text \<open>
  C1. The combined confidence is meant to be the rounded mean of 90 for a
  \<^verbatim>\<open>high\<close> entry, the entry's numeric relevance score if it has one, and 50
  otherwise. For a single Firecrawl page with relevance score 0 that mean is 0, but
  \<^verbatim>\<open>result.relevanceScore || 50\<close> takes the score 0 for a missing one and the
  code reports 50.
\<close>

theorem combineSearchResults_zero_relevance:
  "map ce_relevanceScore (cr_allResults (combineSearchResults zeroScoreOperation)) = [Some 0]
   \<and> combinedConfidence (cr_summary (combineSearchResults zeroScoreOperation)) = 50
   \<and> specifiedCombinedConfidence (cr_allResults (combineSearchResults zeroScoreOperation)) = 0"
  by (simp add: combineSearchResults_def zeroScoreOperation_def perplexityUsable_def
      firecrawlUsable_def firecrawlEntry_def dataField_def confidenceSum_def
      entryConfidence_def truthyNum_def specifiedCombinedConfidence_def
      specifiedEntryConfidence_def mathRound_def floor_eq_iff)

subsection \<open>executeParallelSearch\<close>

lemma settled_perplexity:
  "so_perplexity (settledOperation config query options call) =
     (if enabledPerplexity config options
      then (case inv_perplexity call of Resolved p \<Rightarrow> Some p | _ \<Rightarrow> None) else None)"
  by (simp add: settledOperation_def executePerplexitySearch_def executeFirecrawlSearch_def
      Let_def split: settled.splits)

lemma settled_firecrawl:
  "so_firecrawl (settledOperation config query options call) =
     (if enabledFirecrawl config options
      then (case inv_firecrawl call of Resolved f \<Rightarrow> Some f | _ \<Rightarrow> None) else None)"
  by (simp add: settledOperation_def executePerplexitySearch_def executeFirecrawlSearch_def
      Let_def split: settled.splits)

lemma settled_disabled:
  "\<not> enabledPerplexity config options \<Longrightarrow> \<not> enabledFirecrawl config options \<Longrightarrow>
   settledOperation config query options call =
     \<lparr> so_id = inv_searchId call, so_query = query, so_status = ''in_progress'',
       so_perplexity = None, so_firecrawl = None,
       so_errors = \<lparr> err_perplexity = None, err_firecrawl = None \<rparr>, so_error = None \<rparr>"
  by (simp add: settledOperation_def)

lemma combine_ignores_status:
  "combineSearchResults (operation\<lparr> so_status := s, so_error := e \<rparr>) = combineSearchResults operation"
  by (simp add: combineSearchResults_def)

lemma usable_status:
  "perplexityUsable (so_perplexity (operation\<lparr> so_status := s, so_error := e \<rparr>)) = perplexityUsable (so_perplexity operation)"
  "firecrawlUsable (so_firecrawl (operation\<lparr> so_status := s, so_error := e \<rparr>)) = firecrawlUsable (so_firecrawl operation)"
  by simp_all

lemma failurePath_usable:
  assumes "cfg_fallbackEnabled config"
    and "perplexityUsable (so_perplexity operation) \<or> firecrawlUsable (so_firecrawl operation)"
  shows "failurePath config operation message =
     Inr \<lparr> sr_searchId = Some (so_id operation), sr_query = so_query operation,
           sr_results = Some (combineSearchResults operation), sr_status = ''partial_success'',
           sr_sources = Some (SourceList (cr_sources (combineSearchResults operation))),
           sr_errors = Some (so_errors operation), sr_error = None \<rparr>"
  using assms by (auto simp add: failurePath_def createFallbackResults_def Let_def combine_ignores_status)

lemma failurePath_unusable:
  assumes "\<not> perplexityUsable (so_perplexity operation)" "\<not> firecrawlUsable (so_firecrawl operation)"
  shows "failurePath config operation message = Inl message"
  using assms by (simp add: failurePath_def createFallbackResults_def Let_def)

lemma failurePath_disabled:
  "\<not> cfg_fallbackEnabled config \<Longrightarrow> failurePath config operation message = Inl message"
  by (simp add: failurePath_def)

lemma perplexityUsable_iff:
  "perplexityUsable slot \<longleftrightarrow> (\<exists>p. slot = Some p \<and> (pr_error p = None \<or> pr_error p = Some []))"
  by (cases slot) (auto simp add: perplexityUsable_def truthyStr_def split: option.splits)

lemma firecrawlUsable_iff:
  "firecrawlUsable slot \<longleftrightarrow> (\<exists>f items. slot = Some f \<and> fr_successful f = Some items \<and> items \<noteq> [])"
  by (cases slot) (auto simp add: firecrawlUsable_def split: option.splits)

lemma executeParallelSearch_failure:
  assumes "(\<not> enabledPerplexity config options \<and> \<not> enabledFirecrawl config options)
           \<or> timeoutFires config options call"
  shows "executeParallelSearch config query options call =
           failurePath config (settledOperation config query options call)
             (if \<not> enabledPerplexity config options \<and> \<not> enabledFirecrawl config options
              then ''No search providers enabled'' else ''Search timeout'')"
  using assms by (auto simp add: executeParallelSearch_def settled_disabled Let_def)

text \<open>
  The fallback policy where the message of a Perplexity error record is not empty. Let
  the failure path of \<^verbatim>\<open>executeParallelSearch\<close> be taken (no provider is enabled,
  which throws, or the timer fires) with fallback enabled in the configuration. If by
  then a provider has recorded a usable result (a Perplexity result without an error
  field, or a Firecrawl result with a non-empty successful list) the call returns a
  record with status \<^verbatim>\<open>partial_success\<close> that carries the per-provider errors and the
  combined results; if no provider has, the thrown error reaches the caller.
\<close>

lemma executeParallelSearch_fallback_policy:
  assumes "cfg_fallbackEnabled config"
    and "(\<not> enabledPerplexity config options \<and> \<not> enabledFirecrawl config options)
         \<or> timeoutFires config options call"
    and "messagesNonEmpty call"
  shows "((\<exists>p. so_perplexity (settledOperation config query options call) = Some p \<and> pr_error p = None)
          \<or> (\<exists>f items. so_firecrawl (settledOperation config query options call) = Some f
                \<and> fr_successful f = Some items \<and> items \<noteq> [])
          \<longrightarrow> (\<exists>r. executeParallelSearch config query options call = Inr r
                 \<and> sr_status r = ''partial_success''
                 \<and> sr_errors r = Some (so_errors (settledOperation config query options call))
                 \<and> sr_results r = Some (combineSearchResults (settledOperation config query options call))))
       \<and> (\<not> ((\<exists>p. so_perplexity (settledOperation config query options call) = Some p \<and> pr_error p = None)
          \<or> (\<exists>f items. so_firecrawl (settledOperation config query options call) = Some f
                \<and> fr_successful f = Some items \<and> items \<noteq> []))
          \<longrightarrow> executeParallelSearch config query options call =
                Inl (if \<not> enabledPerplexity config options \<and> \<not> enabledFirecrawl config options
                     then ''No search providers enabled'' else ''Search timeout''))"
proof -
  let ?op = "settledOperation config query options call"
  have msg: "pr_error p \<noteq> Some []" if "so_perplexity ?op = Some p" for p
    using that assms(3)
    by (auto simp add: settled_perplexity messagesNonEmpty_def split: if_splits settled.splits)
  have p: "perplexityUsable (so_perplexity ?op) \<longleftrightarrow> (\<exists>p. so_perplexity ?op = Some p \<and> pr_error p = None)"
    using msg by (auto simp add: perplexityUsable_iff)
  note f = firecrawlUsable_iff [of "so_firecrawl ?op"]
  note run = executeParallelSearch_failure [OF assms(2), of query]
  show ?thesis
  proof (cases "perplexityUsable (so_perplexity ?op) \<or> firecrawlUsable (so_firecrawl ?op)")
    case True
    from failurePath_usable [OF assms(1) True] run True show ?thesis
      unfolding p f by simp
  next
    case False
    then have "failurePath config ?op m = Inl m" for m
      by (simp add: failurePath_unusable)
    with run False show ?thesis unfolding p f by simp
  qed
qed

lemma executeParallelSearch_completed:
  assumes "enabledPerplexity config options \<or> enabledFirecrawl config options"
    and "\<not> timeoutFires config options call"
  shows "executeParallelSearch config query options call =
     Inr \<lparr> sr_searchId = Some (inv_searchId call), sr_query = query,
           sr_results = Some (combineSearchResults (settledOperation config query options call)),
           sr_status = ''completed'',
           sr_sources = Some (SourceFlags
             (so_perplexity (settledOperation config query options call) \<noteq> None)
             (so_firecrawl (settledOperation config query options call) \<noteq> None)),
           sr_errors = None, sr_error = None \<rparr>"
  using assms by (auto simp add: executeParallelSearch_def Let_def)

lemma combine_sources:
  "cr_sources (combineSearchResults operation) =
     (if perplexityUsable (so_perplexity operation) then [''perplexity''] else []) @
     (if firecrawlUsable (so_firecrawl operation) then [''firecrawl''] else [])"
  by (simp add: combineSearchResults_def Let_def)

lemma executeParallelSearch_returns_combined:
  assumes "executeParallelSearch config query options call = Inr r"
  shows "sr_results r = Some (combineSearchResults (settledOperation config query options call))"
proof (cases "(\<not> enabledPerplexity config options \<and> \<not> enabledFirecrawl config options)
              \<or> timeoutFires config options call")
  case True
  note run = executeParallelSearch_failure [OF True, of query]
  show ?thesis
  proof (cases "cfg_fallbackEnabled config \<and>
      (perplexityUsable (so_perplexity (settledOperation config query options call))
       \<or> firecrawlUsable (so_firecrawl (settledOperation config query options call)))")
    case True
    then show ?thesis using run assms failurePath_usable by fastforce
  next
    case False
    then have "failurePath config (settledOperation config query options call) m = Inl m" for m
      using failurePath_unusable failurePath_disabled by blast
    then show ?thesis using run assms by simp
  qed
next
  case False
  then show ?thesis using assms executeParallelSearch_completed [of config options call query]
    by auto
qed

text \<open>
  C3, as amended. With both providers disabled \<^verbatim>\<open>executeParallelSearch\<close> fails with
  the no-providers-enabled error. With a provider enabled it returns a result when every
  invoked provider settles before the timer fires, and also when the timer fires but
  fallback is enabled and a provider has recorded usable data. Every result it returns
  carries a combined record whose sources list is exactly \<^verbatim>\<open>perplexity\<close> if the
  Perplexity result exists without an error field, followed by \<^verbatim>\<open>firecrawl\<close> if the
  Firecrawl result has a non-empty successful list.
  The message of a Perplexity error record is taken to be non-empty.
\<close>

theorem executeParallelSearch_sources:
  assumes "messagesNonEmpty call"
  shows "(\<not> enabledPerplexity config options \<and> \<not> enabledFirecrawl config options
          \<longrightarrow> executeParallelSearch config query options call = Inl ''No search providers enabled'')
       \<and> ((enabledPerplexity config options \<or> enabledFirecrawl config options)
            \<and> (\<not> timeoutFires config options call
                 \<or> (cfg_fallbackEnabled config
                     \<and> ((\<exists>p. so_perplexity (settledOperation config query options call) = Some p
                              \<and> pr_error p = None)
                          \<or> (\<exists>f items. so_firecrawl (settledOperation config query options call) = Some f
                                \<and> fr_successful f = Some items \<and> items \<noteq> []))))
          \<longrightarrow> (\<exists>r. executeParallelSearch config query options call = Inr r))
       \<and> (\<forall>r. executeParallelSearch config query options call = Inr r
          \<longrightarrow> (\<exists>combined. sr_results r = Some combined
                 \<and> cr_sources combined =
                     (if \<exists>p. so_perplexity (settledOperation config query options call) = Some p
                             \<and> pr_error p = None
                      then [''perplexity''] else []) @
                     (if \<exists>f items. so_firecrawl (settledOperation config query options call) = Some f
                             \<and> fr_successful f = Some items \<and> items \<noteq> []
                      then [''firecrawl''] else [])))"
proof -
  let ?op = "settledOperation config query options call"
  have msg: "pr_error p \<noteq> Some []" if "so_perplexity ?op = Some p" for p
    using that assms
    by (auto simp add: settled_perplexity messagesNonEmpty_def split: if_splits settled.splits)
  have p: "(\<exists>p. so_perplexity ?op = Some p \<and> pr_error p = None) \<longleftrightarrow> perplexityUsable (so_perplexity ?op)"
    using msg by (auto simp add: perplexityUsable_iff)
  have f: "(\<exists>f items. so_firecrawl ?op = Some f \<and> fr_successful f = Some items \<and> items \<noteq> [])
             \<longleftrightarrow> firecrawlUsable (so_firecrawl ?op)"
    by (simp add: firecrawlUsable_iff)
  have none: "executeParallelSearch config query options call = Inl ''No search providers enabled''"
    if "\<not> enabledPerplexity config options" "\<not> enabledFirecrawl config options"
  proof -
    have "\<not> perplexityUsable (so_perplexity ?op)" "\<not> firecrawlUsable (so_firecrawl ?op)"
      using that by (simp_all add: settled_perplexity settled_firecrawl perplexityUsable_def
          firecrawlUsable_def)
    then show ?thesis
      using that executeParallelSearch_failure [of config options call query]
      by (simp add: failurePath_unusable)
  qed
  have some: "\<exists>r. executeParallelSearch config query options call = Inr r"
    if en: "enabledPerplexity config options \<or> enabledFirecrawl config options"
      and ok: "\<not> timeoutFires config options call
         \<or> (cfg_fallbackEnabled config
             \<and> (perplexityUsable (so_perplexity ?op) \<or> firecrawlUsable (so_firecrawl ?op)))"
  proof (cases "timeoutFires config options call")
    case True
    with ok have fb: "cfg_fallbackEnabled config"
      and us: "perplexityUsable (so_perplexity ?op) \<or> firecrawlUsable (so_firecrawl ?op)"
      by auto
    from True executeParallelSearch_failure [of config options call query]
      failurePath_usable [OF fb us]
    show ?thesis by simp
  next
    case False
    with en executeParallelSearch_completed [of config options call query] show ?thesis by simp
  qed
  have src: "\<exists>combined. sr_results r = Some combined \<and> cr_sources combined =
        (if perplexityUsable (so_perplexity ?op) then [''perplexity''] else []) @
        (if firecrawlUsable (so_firecrawl ?op) then [''firecrawl''] else [])"
    if "executeParallelSearch config query options call = Inr r" for r
    using executeParallelSearch_returns_combined [OF that] by (simp add: combine_sources)
  show ?thesis
    unfolding p f using none some src by blast
qed

lemmas concrete_calls =
  orchestratorConfig_def noFallbackConfig_def noOptions_def firecrawlHangs_def bothHang_def
  bothAnswer_def answeredPerplexity_def scrapedPages_def enabledPerplexity_def
  enabledFirecrawl_def timeoutFires_def messagesNonEmpty_def

text \<open>The fallback policy at two concrete calls under the default configuration:
  Perplexity answered and Firecrawl hangs (partial success), both hang (the timeout
  error propagates).\<close>

lemma executeParallelSearch_fallback_policy_examples:
  "cfg_fallbackEnabled orchestratorConfig
   \<and> timeoutFires orchestratorConfig noOptions firecrawlHangs
   \<and> messagesNonEmpty firecrawlHangs
   \<and> (\<exists>r. executeParallelSearch orchestratorConfig ''Federal Reserve interest rate'' noOptions
              firecrawlHangs = Inr r
          \<and> sr_status r = ''partial_success''
          \<and> sr_errors r = Some \<lparr> err_perplexity = None, err_firecrawl = None \<rparr>)
   \<and> timeoutFires orchestratorConfig noOptions bothHang
   \<and> messagesNonEmpty bothHang
   \<and> executeParallelSearch orchestratorConfig ''Federal Reserve interest rate'' noOptions bothHang
        = Inl ''Search timeout''"
proof -
  let ?q = "''Federal Reserve interest rate''"
  have fb: "cfg_fallbackEnabled orchestratorConfig" by (simp add: concrete_calls)
  have t1: "(\<not> enabledPerplexity orchestratorConfig noOptions \<and> \<not> enabledFirecrawl orchestratorConfig noOptions)
            \<or> timeoutFires orchestratorConfig noOptions firecrawlHangs"
    and t2: "(\<not> enabledPerplexity orchestratorConfig noOptions \<and> \<not> enabledFirecrawl orchestratorConfig noOptions)
            \<or> timeoutFires orchestratorConfig noOptions bothHang"
    by (simp_all add: concrete_calls)
  have m1: "messagesNonEmpty firecrawlHangs" and m2: "messagesNonEmpty bothHang"
    by (simp_all add: concrete_calls)
  have u1: "\<exists>p. so_perplexity (settledOperation orchestratorConfig ?q noOptions firecrawlHangs) = Some p
              \<and> pr_error p = None"
    by (simp add: settled_perplexity concrete_calls)
  have e1: "so_errors (settledOperation orchestratorConfig ?q noOptions firecrawlHangs)
              = \<lparr> err_perplexity = None, err_firecrawl = None \<rparr>"
    by (simp add: settledOperation_def executePerplexitySearch_def executeFirecrawlSearch_def
        concrete_calls)
  have u2: "\<not> ((\<exists>p. so_perplexity (settledOperation orchestratorConfig ?q noOptions bothHang) = Some p
              \<and> pr_error p = None)
            \<or> (\<exists>f items. so_firecrawl (settledOperation orchestratorConfig ?q noOptions bothHang) = Some f
              \<and> fr_successful f = Some items \<and> items \<noteq> []))"
    by (simp add: settled_perplexity settled_firecrawl concrete_calls)
  have en: "enabledPerplexity orchestratorConfig noOptions" by (simp add: concrete_calls)
  from executeParallelSearch_fallback_policy [OF fb t1 m1, of ?q] u1 e1
  have r1: "\<exists>r. executeParallelSearch orchestratorConfig ?q noOptions firecrawlHangs = Inr r
          \<and> sr_status r = ''partial_success''
          \<and> sr_errors r = Some \<lparr> err_perplexity = None, err_firecrawl = None \<rparr>"
    by auto
  from executeParallelSearch_fallback_policy [OF fb t2 m2, of ?q] u2 en
  have r2: "executeParallelSearch orchestratorConfig ?q noOptions bothHang = Inl ''Search timeout''"
    by simp
  from fb t1 t2 m1 m2 r1 r2 en show ?thesis by simp
qed

text \<open>
  C2 fails on the code. The fallback policy of the claim: when the failure path is taken
  with fallback enabled and no provider has recorded a usable result (a Perplexity
  result without an error field, or a Firecrawl result with a non-empty successful
  list), the error propagates to the caller. Under the default configuration, where
  fallback is enabled, let the Perplexity call fail with an error whose message is the
  empty string while Firecrawl is still running when the timer fires. The recorded
  Perplexity result has an error field (the empty message, no content, confidence
  \<^verbatim>\<open>failed\<close>) and there is no Firecrawl result, so no provider has produced anything
  usable. The test \<^verbatim>\<open>!perplexity.error\<close> of \<^verbatim>\<open>createFallbackResults\<close> takes the
  empty message for an absent one, and the call returns a record with status
  \<^verbatim>\<open>partial_success\<close> that lists \<^verbatim>\<open>perplexity\<close> as its source, instead of
  throwing \<^verbatim>\<open>Search timeout\<close>.
\<close>

theorem executeParallelSearch_empty_message:
  "cfg_fallbackEnabled orchestratorConfig
   \<and> timeoutFires orchestratorConfig noOptions emptyMessageCall
   \<and> so_perplexity (settledOperation orchestratorConfig ''Federal Reserve interest rate''
        noOptions emptyMessageCall)
       = Some \<lparr> pr_content = None, pr_error = Some [], pr_confidence = ''failed'',
                pr_searchId = ''pplx_error_1'' \<rparr>
   \<and> so_firecrawl (settledOperation orchestratorConfig ''Federal Reserve interest rate''
        noOptions emptyMessageCall) = None
   \<and> map_sum id (\<lambda>r. (sr_status r, map_option cr_sources (sr_results r)))
        (executeParallelSearch orchestratorConfig ''Federal Reserve interest rate'' noOptions
           emptyMessageCall)
       = Inr (''partial_success'', Some [''perplexity''])"
  by code_simp

text \<open>
  C3 as stated fails: with fallback disabled, Perplexity enabled and answering without
  error, and Firecrawl still running when the timer fires, the call throws
  \<^verbatim>\<open>Search timeout\<close> instead of returning a combined result.
\<close>

theorem executeParallelSearch_timeout_without_fallback:
  "enabledPerplexity noFallbackConfig noOptions
   \<and> so_perplexity (settledOperation noFallbackConfig ''Federal Reserve interest rate'' noOptions
        firecrawlHangs) = Some answeredPerplexity
   \<and> pr_error answeredPerplexity = None
   \<and> executeParallelSearch noFallbackConfig ''Federal Reserve interest rate'' noOptions
        firecrawlHangs = Inl ''Search timeout''"
  by (simp add: executeParallelSearch_def failurePath_def settled_perplexity concrete_calls)

text \<open>Both providers answer: the result lists both sources.\<close>

theorem executeParallelSearch_sources_witness:
  "messagesNonEmpty bothAnswer
   \<and> enabledPerplexity orchestratorConfig noOptions
   \<and> \<not> timeoutFires orchestratorConfig noOptions bothAnswer
   \<and> (\<exists>r combined. executeParallelSearch orchestratorConfig ''Federal Reserve interest rate''
           noOptions bothAnswer = Inr r
         \<and> sr_results r = Some combined
         \<and> cr_sources combined = [''perplexity'', ''firecrawl''])"
proof -
  let ?q = "''Federal Reserve interest rate''"
  have m: "messagesNonEmpty bothAnswer"
    and en: "enabledPerplexity orchestratorConfig noOptions"
    and t: "\<not> timeoutFires orchestratorConfig noOptions bothAnswer"
    by (simp_all add: concrete_calls)
  have p: "\<exists>p. so_perplexity (settledOperation orchestratorConfig ?q noOptions bothAnswer) = Some p
              \<and> pr_error p = None"
    by (simp add: settled_perplexity concrete_calls)
  have f: "\<exists>f items. so_firecrawl (settledOperation orchestratorConfig ?q noOptions bothAnswer) = Some f
              \<and> fr_successful f = Some items \<and> items \<noteq> []"
    by (simp add: settled_firecrawl concrete_calls)
  from executeParallelSearch_sources [OF m, of orchestratorConfig noOptions ?q] en t p f
  have "\<exists>r combined. executeParallelSearch orchestratorConfig ?q noOptions bothAnswer = Inr r
         \<and> sr_results r = Some combined
         \<and> cr_sources combined = [''perplexity'', ''firecrawl'']"
    by (auto simp only: if_True append_Cons append_Nil)
  with m en t show ?thesis by simp
qed

section \<open>Properties of the results processor\<close>

subsection \<open>calculateSimilarity on normalized text\<close>

text \<open>A normalized text has no white space at either end, so splitting it leaves no
  empty word unless the text itself is empty.\<close>

lemma splitWs_not_Nil: "splitWs s \<noteq> []"
  by (induction s) (auto split: list.splits)

lemma hd_splitWs_empty:
  "hd (splitWs s) = [] \<Longrightarrow> s = [] \<or> isSpaceChar (hd s)"
  by (cases s) (auto split: list.splits if_splits)

lemma empty_in_tl_splitWs:
  "[] \<in> set (tl (splitWs s)) \<Longrightarrow> s \<noteq> [] \<and> isSpaceChar (last s)"
proof (induction s)
  case Nil
  then show ?case by simp
next
  case (Cons c cs)
  show ?case
  proof (cases "isSpaceChar c")
    case sp: True
    show ?thesis
    proof (cases "cs \<noteq> [] \<and> isSpaceChar (hd cs)")
      case True
      with sp Cons show ?thesis by simp
    next
      case False
      with sp Cons.prems have mem: "[] \<in> set (splitWs cs)" by simp
      show ?thesis
      proof (cases "hd (splitWs cs) = []")
        case True
        with hd_splitWs_empty False have "cs = []" by blast
        with sp show ?thesis by simp
      next
        case not_hd: False
        with mem splitWs_not_Nil [of cs] have "[] \<in> set (tl (splitWs cs))"
          by (cases "splitWs cs") auto
        with Cons.IH show ?thesis by simp
      qed
    qed
  next
    case False
    with Cons.prems splitWs_not_Nil [of cs] have "[] \<in> set (tl (splitWs cs))"
      by (cases "splitWs cs") auto
    with Cons.IH show ?thesis by simp
  qed
qed

lemma empty_word_splitWs:
  assumes "[] \<in> set (splitWs s)"
  shows "s = [] \<or> isSpaceChar (hd s) \<or> isSpaceChar (last s)"
proof (cases "hd (splitWs s) = []")
  case True
  then show ?thesis using hd_splitWs_empty by blast
next
  case False
  with assms splitWs_not_Nil [of s] have "[] \<in> set (tl (splitWs s))"
    by (cases "splitWs s") auto
  then show ?thesis using empty_in_tl_splitWs by blast
qed

lemma last_dropWhile_nonempty: "dropWhile P xs \<noteq> [] \<Longrightarrow> last (dropWhile P xs) = last xs"
  by (induction xs) (auto split: if_splits)

lemma ratio_le_one: "m \<le> n \<Longrightarrow> (of_nat m / of_nat n :: rat) \<le> 1"
  by (cases "n = 0") (simp_all add: divide_le_eq_1)

lemma jsTrim_ends:
  assumes "jsTrim s \<noteq> []"
  shows "\<not> isSpaceChar (hd (jsTrim s))" "\<not> isSpaceChar (last (jsTrim s))"
proof -
  let ?y = "dropWhile isSpaceChar s"
  let ?z = "dropWhile isSpaceChar (rev ?y)"
  from assms have z: "?z \<noteq> []" by (simp add: jsTrim_def)
  have y: "?y \<noteq> []"
  proof
    assume "?y = []"
    then have "?z = []" by (simp only: rev.simps dropWhile.simps)
    with z show False by contradiction
  qed
  have "\<not> isSpaceChar (hd ?z)" using z by (rule hd_dropWhile)
  then show "\<not> isSpaceChar (last (jsTrim s))"
    using z by (simp add: jsTrim_def last_rev)
  have "last ?z = last (rev ?y)" using z by (rule last_dropWhile_nonempty)
  also have "\<dots> = hd ?y" using y by (simp add: last_rev)
  finally have "hd (jsTrim s) = hd ?y" using z by (simp add: jsTrim_def hd_rev)
  moreover have "\<not> isSpaceChar (hd ?y)" using y by (rule hd_dropWhile)
  ultimately show "\<not> isSpaceChar (hd (jsTrim s))" by simp
qed

lemma normalizeText_words_nonempty:
  "normalizeText s \<noteq> [] \<Longrightarrow> [] \<notin> set (splitWs (normalizeText s))"
  using empty_word_splitWs [of "normalizeText s"] jsTrim_ends
  unfolding normalizeText_def by blast

lemma jaccardIndex_self: "ws \<noteq> [] \<Longrightarrow> jaccardIndex ws ws = 1"
  by (simp add: jaccardIndex_def card_gt_0_iff)

lemma jaccardIndex_commute: "jaccardIndex xs ys = jaccardIndex ys xs"
  by (simp add: jaccardIndex_def Int_commute Un_commute)

lemma jaccardIndex_range: "0 \<le> jaccardIndex xs ys \<and> jaccardIndex xs ys \<le> 1"
proof -
  have "card (set xs \<inter> set ys) \<le> card (set xs \<union> set ys)"
    by (rule card_mono) auto
  then have "(of_nat (card (set xs \<inter> set ys)) :: rat) / of_nat (card (set xs \<union> set ys)) \<le> 1"
    by (rule ratio_le_one)
  then show ?thesis
    by (simp add: jaccardIndex_def)
qed

lemma overlap_distinct:
  assumes "distinct words1"
  shows "length (filter (\<lambda>word. word \<in> set words2) words1) = card (set words1 \<inter> set words2)"
proof -
  have "distinct (filter (\<lambda>word. word \<in> set words2) words1)"
    using assms by simp
  then have "card (set (filter (\<lambda>word. word \<in> set words2) words1))
      = length (filter (\<lambda>word. word \<in> set words2) words1)"
    by (rule distinct_card)
  moreover have "set (filter (\<lambda>word. word \<in> set words2) words1) = set words1 \<inter> set words2"
    by auto
  ultimately show ?thesis by (simp only:)
qed

lemma calculateSimilarity_jaccard:
  assumes "distinct (splitWs (normalizeText a))"
  shows "calculateSimilarity (normalizeText a) (normalizeText b)
           = jaccardIndex (splitWs (normalizeText a)) (splitWs (normalizeText b))"
proof -
  let ?x = "normalizeText a" and ?y = "normalizeText b"
  consider "?x = ?y" | "?x \<noteq> ?y" "?x = []" | "?x \<noteq> ?y" "?y = []"
    | "?x \<noteq> ?y" "?x \<noteq> []" "?y \<noteq> []" by blast
  then show ?thesis
  proof cases
    case 1
    then show ?thesis
      by (simp add: calculateSimilarity_def jaccardIndex_self splitWs_not_Nil)
  next
    case 2
    then have "?y \<noteq> []" by auto
    then have "[] \<notin> set (splitWs ?y)" by (rule normalizeText_words_nonempty)
    with 2 show ?thesis
      by (simp add: calculateSimilarity_def jaccardIndex_def)
  next
    case 3
    then have "?x \<noteq> []" by auto
    then have "[] \<notin> set (splitWs ?x)" by (rule normalizeText_words_nonempty)
    with 3 show ?thesis
      by (simp add: calculateSimilarity_def jaccardIndex_def)
  next
    case 4
    then show ?thesis
      using overlap_distinct [OF assms, of "splitWs ?y"]
      by (simp add: calculateSimilarity_def jaccardIndex_def Let_def length_remdups_card_conv)
  qed
qed

text \<open>
  Where the normalized forms of two strings repeat no word, \<^verbatim>\<open>calculateSimilarity\<close>
  of the normalized forms is the Jaccard index of their word sets (size of the
  intersection over size of the union), is symmetric in its arguments and lies between
  0 and 1.
\<close>

lemma calculateSimilarity_distinct_words:
  assumes "distinct (splitWs (normalizeText a))" and "distinct (splitWs (normalizeText b))"
  shows "calculateSimilarity (normalizeText a) (normalizeText b)
           = jaccardIndex (splitWs (normalizeText a)) (splitWs (normalizeText b))
       \<and> calculateSimilarity (normalizeText a) (normalizeText b)
           = calculateSimilarity (normalizeText b) (normalizeText a)
       \<and> 0 \<le> calculateSimilarity (normalizeText a) (normalizeText b)
       \<and> calculateSimilarity (normalizeText a) (normalizeText b) \<le> 1"
  using calculateSimilarity_jaccard [OF assms(1), of b] calculateSimilarity_jaccard [OF assms(2), of a]
    jaccardIndex_commute [of "splitWs (normalizeText a)" "splitWs (normalizeText b)"]
    jaccardIndex_range [of "splitWs (normalizeText a)" "splitWs (normalizeText b)"]
  by simp

text \<open>
  C6 fails on the code. The claim: \<^verbatim>\<open>calculateSimilarity\<close> of two normalized strings
  is the Jaccard index of their word sets, symmetric and between 0 and 1. The code
  divides the length of \<^verbatim>\<open>intersection\<close> by the length of \<^verbatim>\<open>union\<close>, but only the
  union goes through a \<^verbatim>\<open>Set\<close>: the intersection keeps every occurrence of a word of
  the first string that occurs in the second. For \<^verbatim>\<open>No, no, no, no deal!\<close> against
  \<^verbatim>\<open>No way\<close> the similarity is 4/3, above 1, where the Jaccard index is 1/3, and with
  the arguments exchanged it is 1/3.
\<close>

theorem calculateSimilarity_repeated_words:
  "calculateSimilarity (normalizeText ''No, no, no, no deal!'') (normalizeText ''No way'') = 4 / 3
   \<and> jaccardIndex (splitWs (normalizeText ''No, no, no, no deal!''))
         (splitWs (normalizeText ''No way'')) = 1 / 3
   \<and> calculateSimilarity (normalizeText ''No way'') (normalizeText ''No, no, no, no deal!'') = 1 / 3"
  by code_simp

text \<open>The two related titles of the processor's own test repeat no word.\<close>

lemma calculateSimilarity_distinct_words_example:
  "distinct (splitWs (normalizeText ''Federal Reserve interest rate policy''))
   \<and> distinct (splitWs (normalizeText ''Fed interest rate monetary policy''))
   \<and> calculateSimilarity (normalizeText ''Federal Reserve interest rate policy'')
        (normalizeText ''Fed interest rate monetary policy'')
      = jaccardIndex (splitWs (normalizeText ''Federal Reserve interest rate policy''))
          (splitWs (normalizeText ''Fed interest rate monetary policy''))
   \<and> calculateSimilarity (normalizeText ''Federal Reserve interest rate policy'')
        (normalizeText ''Fed interest rate monetary policy'')
      = calculateSimilarity (normalizeText ''Fed interest rate monetary policy'')
          (normalizeText ''Federal Reserve interest rate policy'')"
proof -
  have a: "distinct (splitWs (normalizeText ''Federal Reserve interest rate policy''))"
    by code_simp
  have b: "distinct (splitWs (normalizeText ''Fed interest rate monetary policy''))"
    by code_simp
  from calculateSimilarity_distinct_words [OF a b] a b show ?thesis by simp
qed

subsection \<open>deduplicateResults\<close>

lemma scanDeduped_None_iff:
  "scanDeduped r acc = None \<longleftrightarrow> (\<forall>e \<in> set acc. \<not> isDuplicateOf r e)"
  by (induction acc) auto

lemma scanDeduped_length: "scanDeduped r acc = Some l \<Longrightarrow> length l = length acc"
  by (induction acc arbitrary: l) (auto split: if_splits)

lemma dedupStep_fresh:
  "\<forall>e \<in> set acc. \<not> isDuplicateOf r e \<Longrightarrow> dedupStep acc r = acc @ [r]"
  by (simp add: dedupStep_def scanDeduped_None_iff [symmetric])

lemma dedupStep_duplicate_length:
  "\<exists>e \<in> set acc. isDuplicateOf r e \<Longrightarrow> length (dedupStep acc r) = length acc"
proof -
  assume "\<exists>e \<in> set acc. isDuplicateOf r e"
  then have "scanDeduped r acc \<noteq> None" by (simp add: scanDeduped_None_iff)
  then obtain l where "scanDeduped r acc = Some l" by blast
  then show ?thesis by (simp add: dedupStep_def scanDeduped_length)
qed

lemma dedupStep_length_le: "length (dedupStep acc r) \<le> Suc (length acc)"
  by (cases "\<exists>e \<in> set acc. isDuplicateOf r e")
     (simp_all add: dedupStep_duplicate_length dedupStep_fresh)

lemma foldl_dedupStep_length_le: "length (foldl dedupStep acc rs) \<le> length acc + length rs"
proof (induction rs arbitrary: acc)
  case Nil
  then show ?case by simp
next
  case (Cons r rs)
  have "length (foldl dedupStep (dedupStep acc r) rs) \<le> length (dedupStep acc r) + length rs"
    by (rule Cons.IH)
  also have "\<dots> \<le> Suc (length acc) + length rs"
    using dedupStep_length_le [of acc r] by simp
  finally show ?case by simp
qed

lemma foldl_dedupStep_unchanged:
  "foldl dedupStep acc rs = acc @ rs \<longleftrightarrow> noEarlierDuplicateFrom acc rs"
proof (induction rs arbitrary: acc)
  case Nil
  then show ?case by simp
next
  case (Cons r rs)
  show ?case
  proof (cases "\<exists>e \<in> set acc. isDuplicateOf r e")
    case True
    have "length (foldl dedupStep (dedupStep acc r) rs) \<le> length (dedupStep acc r) + length rs"
      by (rule foldl_dedupStep_length_le)
    then have "length (foldl dedupStep acc (r # rs)) < length (acc @ r # rs)"
      using dedupStep_duplicate_length [OF True] by simp
    then have "foldl dedupStep acc (r # rs) \<noteq> acc @ r # rs" by auto
    with True show ?thesis by auto
  next
    case False
    then have "dedupStep acc r = acc @ [r]" by (simp add: dedupStep_fresh)
    with False Cons.IH [of "acc @ [r]"] show ?thesis by simp
  qed
qed

text \<open>The lists that deduplication leaves unchanged are those in which no record
  duplicates an earlier one.\<close>

lemma deduplicateResults_unchanged_iff:
  "deduplicateResults rs = rs \<longleftrightarrow> noEarlierDuplicate rs"
  using foldl_dedupStep_unchanged [of "[]" rs]
  by (simp add: deduplicateResults_def noEarlierDuplicate_def)

text \<open>
  C4, as amended. Applying \<^verbatim>\<open>deduplicateResults\<close> to its own output gives that
  output unchanged (same records, same order) exactly when no record of the output
  duplicates a record before it in the output (title or content similarity above the
  threshold, as the loop computes it). A first pass that overwrote an accepted record
  can leave such a pair.
\<close>

theorem deduplicateResults_idempotent_iff:
  "deduplicateResults (deduplicateResults results) = deduplicateResults results
     \<longleftrightarrow> noEarlierDuplicate (deduplicateResults results)"
  by (rule deduplicateResults_unchanged_iff)

lemma scanDeduped_first_duplicate:
  assumes "\<forall>e \<in> set pre. \<not> isDuplicateOf r e" and "isDuplicateOf r existing"
  shows "scanDeduped r (pre @ existing # post) =
           Some (pre @ (if nr_relevanceScore r > nr_relevanceScore existing then r else existing) # post)"
  using assms by (induction pre) simp_all

lemma deduplicateResults_snoc:
  "deduplicateResults (results @ [r]) = dedupStep (deduplicateResults results) r"
  by (simp add: deduplicateResults_def)

text \<open>
  C5, as amended. When a record is appended to an input list, and the first record
  accepted so far that it duplicates is one whose normalized title has a word-overlap
  similarity above 0.8 with its own, then exactly one of the two is in that slot
  afterwards: the new record if its relevance score is strictly greater, otherwise the
  accepted one (which therefore stays on equal scores). The rest of the accepted list
  is unchanged.
\<close>

theorem deduplicateResults_keeps_higher:
  assumes "deduplicateResults results = pre @ existing # post"
    and "\<forall>e \<in> set pre. \<not> isDuplicateOf result e"
    and "calculateSimilarity (normalizeText (nr_title result)) (normalizeText (nr_title existing))
           > dedupThreshold"
  shows "deduplicateResults (results @ [result]) =
           pre @ (if nr_relevanceScore result > nr_relevanceScore existing
                  then result else existing) # post"
proof -
  from assms(3) have "isDuplicateOf result existing"
    by (simp add: isDuplicateOf_def Let_def)
  with assms(1,2) show ?thesis
    by (simp add: deduplicateResults_snoc dedupStep_def scanDeduped_first_duplicate)
qed

text \<open>
  C4 as stated fails. The third record duplicates the first by title and replaces it,
  having the higher score; it also duplicates the second by content, which the first
  pass never compares. The second pass drops the second record.
\<close>

theorem deduplicateResults_not_idempotent:
  "deduplicateResults
     [ exampleRecord fedTitle fedContent 60,
       exampleRecord marketTitle marketContent 70,
       exampleRecord fedTitle marketContent 80 ]
     = [ exampleRecord fedTitle marketContent 80, exampleRecord marketTitle marketContent 70 ]
   \<and> deduplicateResults
     [ exampleRecord fedTitle marketContent 80, exampleRecord marketTitle marketContent 70 ]
     = [ exampleRecord fedTitle marketContent 80 ]"
  by code_simp

text \<open>Two unrelated records: the output has no duplicate pair and is a fixed point.\<close>

theorem deduplicateResults_idempotent_iff_witness:
  "noEarlierDuplicate (deduplicateResults
     [ exampleRecord fedTitle fedContent 60, exampleRecord marketTitle marketContent 70 ])
   \<and> deduplicateResults (deduplicateResults
     [ exampleRecord fedTitle fedContent 60, exampleRecord marketTitle marketContent 70 ])
     = deduplicateResults
     [ exampleRecord fedTitle fedContent 60, exampleRecord marketTitle marketContent 70 ]"
proof -
  have fresh: "noEarlierDuplicate (deduplicateResults
     [ exampleRecord fedTitle fedContent 60, exampleRecord marketTitle marketContent 70 ])"
    by code_simp
  with deduplicateResults_idempotent_iff
    [of "[ exampleRecord fedTitle fedContent 60, exampleRecord marketTitle marketContent 70 ]"]
  show ?thesis by simp
qed

text \<open>
  C5 as stated fails. The second and the third record have the same title. The second
  is discarded as a duplicate (by content) of the first; the third duplicates nothing
  accepted and is kept, although its score is the lower of the two.
\<close>

theorem deduplicateResults_drops_higher:
  "calculateSimilarity (normalizeText (nr_title (exampleRecord fedTitle marketContent 50)))
       (normalizeText (nr_title (exampleRecord fedTitle fedContent 10))) > dedupThreshold
   \<and> deduplicateResults
     [ exampleRecord marketTitle marketContent 90,
       exampleRecord fedTitle marketContent 50,
       exampleRecord fedTitle fedContent 10 ]
     = [ exampleRecord marketTitle marketContent 90, exampleRecord fedTitle fedContent 10 ]
   \<and> nr_relevanceScore (exampleRecord fedTitle fedContent 10)
       < nr_relevanceScore (exampleRecord fedTitle marketContent 50)"
  by code_simp

text \<open>A list of two records with the same title is reduced to the one with the higher
  score.\<close>

theorem deduplicateResults_keeps_higher_witness:
  "deduplicateResults [exampleRecord fedTitle fedContent 60]
     = [] @ exampleRecord fedTitle fedContent 60 # []
   \<and> calculateSimilarity (normalizeText (nr_title (exampleRecord fedTitle marketContent 80)))
         (normalizeText (nr_title (exampleRecord fedTitle fedContent 60))) > dedupThreshold
   \<and> deduplicateResults
         [ exampleRecord fedTitle fedContent 60, exampleRecord fedTitle marketContent 80 ]
       = [ exampleRecord fedTitle marketContent 80 ]"
proof -
  have one: "deduplicateResults [exampleRecord fedTitle fedContent 60]
     = [] @ exampleRecord fedTitle fedContent 60 # []"
    by (simp add: deduplicateResults_def dedupStep_def)
  have none: "\<forall>e \<in> set []. \<not> isDuplicateOf (exampleRecord fedTitle marketContent 80) e"
    by simp
  have similar: "calculateSimilarity (normalizeText (nr_title (exampleRecord fedTitle marketContent 80)))
         (normalizeText (nr_title (exampleRecord fedTitle fedContent 60))) > dedupThreshold"
    by code_simp
  have scores: "nr_relevanceScore (exampleRecord fedTitle marketContent 80)
      > nr_relevanceScore (exampleRecord fedTitle fedContent 60)"
    by (simp add: exampleRecord_def)
  from deduplicateResults_keeps_higher [OF one none similar] one similar scores
  show ?thesis by simp
qed

subsection \<open>scoreResults\<close>

lemma hours_less:
  "(of_int d :: rat) / (1000 * 60 * 60) < of_int h \<longleftrightarrow> d < 3600000 * h"
proof -
  have "(of_int d :: rat) / (1000 * 60 * 60) < of_int h
          \<longleftrightarrow> (of_int d :: rat) < of_int (3600000 * h)"
    by (simp add: divide_less_eq mult.commute)
  also have "\<dots> \<longleftrightarrow> d < 3600000 * h" by (rule of_int_less_iff)
  finally show ?thesis .
qed

lemma freshness_explicit:
  "calculateFreshnessScore now r =
     (case nr_timestamp r of
        None \<Rightarrow> 50
      | Some t \<Rightarrow> if now - t < 3600000 then 100
                  else if now - t < 86400000 then 90
                  else if now - t < 604800000 then 70 else 50)"
proof (cases "nr_timestamp r")
  case None
  then show ?thesis by (simp add: calculateFreshnessScore_def)
next
  case (Some t)
  have a: "(of_int (now - t) :: rat) / (1000 * 60 * 60) < 1 \<longleftrightarrow> now - t < 3600000"
    using hours_less [of "now - t" 1] by simp
  have b: "(of_int (now - t) :: rat) / (1000 * 60 * 60) < 24 \<longleftrightarrow> now - t < 86400000"
    using hours_less [of "now - t" 24] by simp
  have c: "(of_int (now - t) :: rat) / (1000 * 60 * 60) < 168 \<longleftrightarrow> now - t < 604800000"
    using hours_less [of "now - t" 168] by simp
  show ?thesis
    unfolding calculateFreshnessScore_def Let_def Some option.case a b c ..
qed

lemma completenessFactors_explicit:
  "completenessFactors r =
     [ nr_title r \<noteq> [] \<and> nr_title r \<noteq> ''Untitled'',
       length (nr_content r) > 50,
       (case nr_sourceUrl r of None \<Rightarrow> False | Some url \<Rightarrow> url \<noteq> []),
       length (nr_summary r) > 20,
       (case nr_sourceData r of None \<Rightarrow> False | Some keys \<Rightarrow> length keys > 3) ]"
  by (auto simp add: completenessFactors_def truthyStr_def)

lemma calculateCompletenessScore_eq:
  "calculateCompletenessScore r = of_nat (20 * length (filter (\<lambda>b. b) (completenessFactors r)))"
  by (simp add: calculateCompletenessScore_def Let_def completenessFactors_def)

lemma completeFactor_le: "length (filter (\<lambda>b. b) (completenessFactors r)) \<le> 5"
proof -
  have "length (filter (\<lambda>b. b) (completenessFactors r)) \<le> length (completenessFactors r)"
    by (rule length_filter_le)
  then show ?thesis by (simp add: completenessFactors_def)
qed

lemma mathRound_tenths: "mathRound (of_int n / 10) = (n + 5) div 10"
proof -
  have "(of_int n :: rat) / 10 + 1 / 2 = of_int (n + 5) / of_int 10" by simp
  then have "\<lfloor>(of_int n :: rat) / 10 + 1 / 2\<rfloor> = \<lfloor>(of_int (n + 5) :: rat) / of_int 10\<rfloor>"
    by (simp only:)
  also have "\<dots> = (n + 5) div 10" by (rule floor_divide_of_int_eq)
  finally show ?thesis by (simp only: mathRound_def)
qed

lemma weighted_sum_tenths:
  "(of_int a :: rat) * (4 / 10) + of_int b * (3 / 10) + of_int c * (2 / 10) + of_int d * (1 / 10)
     = of_int (4 * a + 3 * b + 2 * c + d) / 10"
  by simp


lemma scoreOne_explicit:
  "scoreOne now r =
     r\<lparr> nr_qualityScore :=
          (4 * nr_relevanceScore r
           + 3 * (if nr_confidence r = ''high'' then 100
                  else if nr_confidence r = ''medium'' then 75 else 50)
           + 2 * calculateFreshnessScore now r
           + 20 * int (length (filter (\<lambda>b. b) (completenessFactors r))) + 5) div 10,
        nr_freshnessScore := Some (calculateFreshnessScore now r),
        nr_completenessScore :=
          Some (of_int (20 * int (length (filter (\<lambda>b. b) (completenessFactors r))))) \<rparr>"
proof -
  let ?k = "20 * int (length (filter (\<lambda>b. b) (completenessFactors r)))"
  have compl: "calculateCompletenessScore r = of_int ?k"
    by (simp add: calculateCompletenessScore_eq)
  have "mathRound (of_int (nr_relevanceScore r) * (4 / 10)
                   + of_int (confidenceScore r) * (3 / 10)
                   + of_int (calculateFreshnessScore now r) * (2 / 10)
                   + of_int ?k * (1 / 10))
        = (4 * nr_relevanceScore r + 3 * confidenceScore r
           + 2 * calculateFreshnessScore now r + ?k + 5) div 10"
    by (simp only: weighted_sum_tenths mathRound_tenths)
  then show ?thesis
    by (simp add: scoreOne_def Let_def compl confidenceScore_def)
qed

lemma set_scoreResults:
  "set (scoreResults now results query) = scoreOne now ` set results"
  by (simp add: scoreResults_def)

lemma quality_range:
  fixes rel tier fresh :: int and k :: nat
  assumes "0 \<le> rel" "rel \<le> 100" "50 \<le> tier" "tier \<le> 100" "50 \<le> fresh" "fresh \<le> 100"
    "k \<le> 5"
  shows "0 \<le> (4 * rel + 3 * tier + 2 * fresh + 20 * int k + 5) div 10
       \<and> (4 * rel + 3 * tier + 2 * fresh + 20 * int k + 5) div 10 \<le> 100"
  using assms by linarith

text \<open>
  C7. \<^verbatim>\<open>scoreResults\<close> is total and returns as many records as it was given, in
  descending order of quality score: the input records, each with its quality score,
  freshness score and completeness score set. The quality score of a record is
  \<open>round (relevance * 0.4 + confidenceTier * 0.3 + freshness * 0.2 + completeness * 0.1)\<close>,
  which is the integer \<open>(4 * relevance + 3 * confidenceTier + 2 * freshness + completeness + 5) div 10\<close>.
  Here the tier is 100 for the confidence \<^verbatim>\<open>high\<close>, 75 for \<^verbatim>\<open>medium\<close> and 50 for
  any other; the freshness is 100, 90 or 70 for a timestamp less than an hour, a day or
  a week before the clock reading (in milliseconds) and 50 otherwise, also for an
  unparsable timestamp; the completeness is 20 for each of the five checks that holds:
  the title is non-empty and not \<^verbatim>\<open>Untitled\<close>, the content is longer than 50
  characters, the source URL is present and non-empty, the summary is longer than 20
  characters, the raw result has more than 3 keys. For records with a relevance score
  between 0 and 100 the quality score lies between 0 and 100, whatever the other fields
  hold.
\<close>

theorem scoreResults_quality_score:
  assumes "\<forall>r \<in> set results. 0 \<le> nr_relevanceScore r \<and> nr_relevanceScore r \<le> 100"
  shows
    "let tier = (\<lambda>r. if nr_confidence r = ''high'' then 100
                      else if nr_confidence r = ''medium'' then 75 else (50 :: int));
         freshness = (\<lambda>r. case nr_timestamp r of
                              None \<Rightarrow> (50 :: int)
                            | Some t \<Rightarrow> if now - t < 3600000 then 100
                                        else if now - t < 86400000 then 90
                                        else if now - t < 604800000 then 70 else 50);
         checks = (\<lambda>r. [ nr_title r \<noteq> [] \<and> nr_title r \<noteq> ''Untitled'',
                         length (nr_content r) > 50,
                         (case nr_sourceUrl r of None \<Rightarrow> False | Some url \<Rightarrow> url \<noteq> []),
                         length (nr_summary r) > 20,
                         (case nr_sourceData r of None \<Rightarrow> False
                                                | Some keys \<Rightarrow> length keys > 3) ]);
         completeness = (\<lambda>r. 20 * int (length (filter (\<lambda>check. check) (checks r))));
         quality = (\<lambda>r. (4 * nr_relevanceScore r + 3 * tier r + 2 * freshness r
                          + completeness r + 5) div 10)
     in length (scoreResults now results query) = length results
        \<and> sorted (map (\<lambda>s. - nr_qualityScore s) (scoreResults now results query))
        \<and> set (scoreResults now results query)
            = (\<lambda>r. r\<lparr> nr_qualityScore := quality r,
                        nr_freshnessScore := Some (freshness r),
                        nr_completenessScore := Some (of_int (completeness r)) \<rparr>)
              ` set results
        \<and> (\<forall>r \<in> set results.
              quality r = mathRound (of_int (nr_relevanceScore r) * (4 / 10)
                                     + of_int (tier r) * (3 / 10)
                                     + of_int (freshness r) * (2 / 10)
                                     + of_int (completeness r) * (1 / 10))
              \<and> 0 \<le> quality r \<and> quality r \<le> 100)"
  unfolding Let_def
proof (intro conjI ballI)
  show "length (scoreResults now results query) = length results"
    by (simp add: scoreResults_def)
  show "sorted (map (\<lambda>s. - nr_qualityScore s) (scoreResults now results query))"
    unfolding scoreResults_def by (rule sorted_sort_key)
  show "set (scoreResults now results query)
          = (\<lambda>r. r\<lparr> nr_qualityScore :=
                        (4 * nr_relevanceScore r
                         + 3 * (if nr_confidence r = ''high'' then 100
                                else if nr_confidence r = ''medium'' then 75 else 50)
                         + 2 * (case nr_timestamp r of
                                  None \<Rightarrow> 50
                                | Some t \<Rightarrow> if now - t < 3600000 then 100
                                            else if now - t < 86400000 then 90
                                            else if now - t < 604800000 then 70 else 50)
                         + 20 * int (length (filter (\<lambda>check. check)
                              [ nr_title r \<noteq> [] \<and> nr_title r \<noteq> ''Untitled'',
                                length (nr_content r) > 50,
                                (case nr_sourceUrl r of None \<Rightarrow> False | Some url \<Rightarrow> url \<noteq> []),
                                length (nr_summary r) > 20,
                                (case nr_sourceData r of None \<Rightarrow> False
                                                       | Some keys \<Rightarrow> length keys > 3) ]))
                         + 5) div 10,
                      nr_freshnessScore := Some
                        (case nr_timestamp r of
                           None \<Rightarrow> 50
                         | Some t \<Rightarrow> if now - t < 3600000 then 100
                                     else if now - t < 86400000 then 90
                                     else if now - t < 604800000 then 70 else 50),
                      nr_completenessScore := Some (of_int
                        (20 * int (length (filter (\<lambda>check. check)
                              [ nr_title r \<noteq> [] \<and> nr_title r \<noteq> ''Untitled'',
                                length (nr_content r) > 50,
                                (case nr_sourceUrl r of None \<Rightarrow> False | Some url \<Rightarrow> url \<noteq> []),
                                length (nr_summary r) > 20,
                                (case nr_sourceData r of None \<Rightarrow> False
                                                       | Some keys \<Rightarrow> length keys > 3) ])))) \<rparr>)
            ` set results"
    unfolding set_scoreResults scoreOne_explicit freshness_explicit completenessFactors_explicit ..
next
  fix r
  assume r: "r \<in> set results"
  let ?tier = "if nr_confidence r = ''high'' then 100
               else if nr_confidence r = ''medium'' then 75 else (50 :: int)"
  let ?k = "length (filter (\<lambda>check. check) (completenessFactors r))"
  have round: "(4 * nr_relevanceScore r + 3 * ?tier + 2 * calculateFreshnessScore now r
                  + 20 * int ?k + 5) div 10
               = mathRound (of_int (nr_relevanceScore r) * (4 / 10)
                            + of_int ?tier * (3 / 10)
                            + of_int (calculateFreshnessScore now r) * (2 / 10)
                            + of_int (20 * int ?k) * (1 / 10))"
    by (simp only: weighted_sum_tenths mathRound_tenths)
  from r assms have rel: "0 \<le> nr_relevanceScore r" "nr_relevanceScore r \<le> 100" by auto
  have tier: "50 \<le> ?tier" "?tier \<le> 100" by simp_all
  have fresh: "50 \<le> calculateFreshnessScore now r" "calculateFreshnessScore now r \<le> 100"
    by (simp_all add: freshness_explicit split: option.splits)
  note range = quality_range [OF rel tier fresh completeFactor_le [of r]]
  from round show "(4 * nr_relevanceScore r + 3 * ?tier
          + 2 * (case nr_timestamp r of
                   None \<Rightarrow> 50
                 | Some t \<Rightarrow> if now - t < 3600000 then 100
                             else if now - t < 86400000 then 90
                             else if now - t < 604800000 then 70 else 50)
          + 20 * int (length (filter (\<lambda>check. check)
               [ nr_title r \<noteq> [] \<and> nr_title r \<noteq> ''Untitled'',
                 length (nr_content r) > 50,
                 (case nr_sourceUrl r of None \<Rightarrow> False | Some url \<Rightarrow> url \<noteq> []),
                 length (nr_summary r) > 20,
                 (case nr_sourceData r of None \<Rightarrow> False
                                        | Some keys \<Rightarrow> length keys > 3) ]))
          + 5) div 10
        = mathRound (of_int (nr_relevanceScore r) * (4 / 10)
                     + of_int ?tier * (3 / 10)
                     + of_int (case nr_timestamp r of
                                 None \<Rightarrow> 50
                               | Some t \<Rightarrow> if now - t < 3600000 then 100
                                           else if now - t < 86400000 then 90
                                           else if now - t < 604800000 then 70 else 50)
                         * (2 / 10)
                     + of_int (20 * int (length (filter (\<lambda>check. check)
               [ nr_title r \<noteq> [] \<and> nr_title r \<noteq> ''Untitled'',
                 length (nr_content r) > 50,
                 (case nr_sourceUrl r of None \<Rightarrow> False | Some url \<Rightarrow> url \<noteq> []),
                 length (nr_summary r) > 20,
                 (case nr_sourceData r of None \<Rightarrow> False
                                        | Some keys \<Rightarrow> length keys > 3) ]))) * (1 / 10))"
    unfolding freshness_explicit completenessFactors_explicit .
  from range [THEN conjunct1] show "0 \<le> (4 * nr_relevanceScore r + 3 * ?tier
          + 2 * (case nr_timestamp r of
                   None \<Rightarrow> 50
                 | Some t \<Rightarrow> if now - t < 3600000 then 100
                             else if now - t < 86400000 then 90
                             else if now - t < 604800000 then 70 else 50)
          + 20 * int (length (filter (\<lambda>check. check)
               [ nr_title r \<noteq> [] \<and> nr_title r \<noteq> ''Untitled'',
                 length (nr_content r) > 50,
                 (case nr_sourceUrl r of None \<Rightarrow> False | Some url \<Rightarrow> url \<noteq> []),
                 length (nr_summary r) > 20,
                 (case nr_sourceData r of None \<Rightarrow> False
                                        | Some keys \<Rightarrow> length keys > 3) ]))
          + 5) div 10"
    unfolding freshness_explicit completenessFactors_explicit .
  from range [THEN conjunct2] show "(4 * nr_relevanceScore r + 3 * ?tier
          + 2 * (case nr_timestamp r of
                   None \<Rightarrow> 50
                 | Some t \<Rightarrow> if now - t < 3600000 then 100
                             else if now - t < 86400000 then 90
                             else if now - t < 604800000 then 70 else 50)
          + 20 * int (length (filter (\<lambda>check. check)
               [ nr_title r \<noteq> [] \<and> nr_title r \<noteq> ''Untitled'',
                 length (nr_content r) > 50,
                 (case nr_sourceUrl r of None \<Rightarrow> False | Some url \<Rightarrow> url \<noteq> []),
                 length (nr_summary r) > 20,
                 (case nr_sourceData r of None \<Rightarrow> False
                                        | Some keys \<Rightarrow> length keys > 3) ]))
          + 5) div 10 \<le> 100"
    unfolding freshness_explicit completenessFactors_explicit .
qed


text \<open>Three records at the clock reading 1700000000000: the degenerate record scores
  \<open>round (0 + 15 + 10 + 0) = 25\<close>; a record of medium confidence, two days old, of
  which only the URL check holds, scores \<open>round (26 + 22.5 + 14 + 2) = 65\<close>; a record of
  high confidence, half an hour old, with all five checks, scores
  \<open>round (38 + 30 + 20 + 10) = 98\<close>. The output is in descending order.\<close>

theorem scoreResults_quality_score_witness:
  "list_all (\<lambda>r. 0 \<le> nr_relevanceScore r \<and> nr_relevanceScore r \<le> 100)
     [emptyRecord, agedRecord, fullRecord]
   \<and> map (\<lambda>s. (nr_id s, nr_qualityScore s, nr_freshnessScore s, nr_completenessScore s))
        (scoreResults 1700000000000 [emptyRecord, agedRecord, fullRecord] ''fed decision'')
      = [ (''result_1'', 98, Some 100, Some 100),
          (''result_2'', 65, Some 70, Some 20),
          ([], 25, Some 50, Some 0) ]
   \<and> set (scoreResults 1700000000000 [emptyRecord, agedRecord, fullRecord] ''fed decision'')
      = { emptyRecord\<lparr> nr_qualityScore := 25, nr_freshnessScore := Some 50,
                        nr_completenessScore := Some 0 \<rparr>,
          agedRecord\<lparr> nr_qualityScore := 65, nr_freshnessScore := Some 70,
                       nr_completenessScore := Some 20 \<rparr>,
          fullRecord\<lparr> nr_qualityScore := 98, nr_freshnessScore := Some 100,
                       nr_completenessScore := Some 100 \<rparr> }"
proof -
  have range: "list_all (\<lambda>r. 0 \<le> nr_relevanceScore r \<and> nr_relevanceScore r \<le> 100)
     [emptyRecord, agedRecord, fullRecord]"
    by (simp add: emptyRecord_def agedRecord_def fullRecord_def)
  then have h: "\<forall>r \<in> set [emptyRecord, agedRecord, fullRecord].
      0 \<le> nr_relevanceScore r \<and> nr_relevanceScore r \<le> 100"
    by (simp only: list_all_iff)
  have ranked: "map (\<lambda>s. (nr_id s, nr_qualityScore s, nr_freshnessScore s, nr_completenessScore s))
        (scoreResults 1700000000000 [emptyRecord, agedRecord, fullRecord] ''fed decision'')
      = [ (''result_1'', 98, Some 100, Some 100),
          (''result_2'', 65, Some 70, Some 20),
          ([], 25, Some 50, Some 0) ]"
    by code_simp
  note scored = scoreResults_quality_score [OF h, of 1700000000000 "''fed decision''",
      unfolded Let_def, THEN conjunct2, THEN conjunct2, THEN conjunct1]
  have records: "set (scoreResults 1700000000000 [emptyRecord, agedRecord, fullRecord] ''fed decision'')
      = { emptyRecord\<lparr> nr_qualityScore := 25, nr_freshnessScore := Some 50,
                        nr_completenessScore := Some 0 \<rparr>,
          agedRecord\<lparr> nr_qualityScore := 65, nr_freshnessScore := Some 70,
                       nr_completenessScore := Some 20 \<rparr>,
          fullRecord\<lparr> nr_qualityScore := 98, nr_freshnessScore := Some 100,
                       nr_completenessScore := Some 100 \<rparr> }"
    unfolding scored
    by (simp add: emptyRecord_def agedRecord_def fullRecord_def)
  from range ranked records show ?thesis by (intro conjI)
qed

subsection \<open>determineCategory\<close>

lemma first_hit_chain:
  assumes "distinct [c1, c2, c3, c4, c5, c6, d]" and "P"
  shows "(if a1 then c1 else if a2 then c2 else if a3 then c3 else if a4 then c4
          else if a5 then c5 else if a6 then c6 else d) \<in> {c1, c2, c3, c4, c5, c6, d}
       \<and> ((if a1 then c1 else if a2 then c2 else if a3 then c3 else if a4 then c4
            else if a5 then c5 else if a6 then c6 else d) = c1 \<longleftrightarrow> a1)
       \<and> ((if a1 then c1 else if a2 then c2 else if a3 then c3 else if a4 then c4
            else if a5 then c5 else if a6 then c6 else d) = c2 \<longleftrightarrow> \<not> a1 \<and> a2)
       \<and> ((if a1 then c1 else if a2 then c2 else if a3 then c3 else if a4 then c4
            else if a5 then c5 else if a6 then c6 else d) = c3 \<longleftrightarrow> \<not> a1 \<and> \<not> a2 \<and> a3)
       \<and> ((if a1 then c1 else if a2 then c2 else if a3 then c3 else if a4 then c4
            else if a5 then c5 else if a6 then c6 else d) = c4
              \<longleftrightarrow> \<not> a1 \<and> \<not> a2 \<and> \<not> a3 \<and> a4)
       \<and> ((if a1 then c1 else if a2 then c2 else if a3 then c3 else if a4 then c4
            else if a5 then c5 else if a6 then c6 else d) = c5
              \<longleftrightarrow> \<not> a1 \<and> \<not> a2 \<and> \<not> a3 \<and> \<not> a4 \<and> a5)
       \<and> ((if a1 then c1 else if a2 then c2 else if a3 then c3 else if a4 then c4
            else if a5 then c5 else if a6 then c6 else d) = c6
              \<longleftrightarrow> \<not> a1 \<and> \<not> a2 \<and> \<not> a3 \<and> \<not> a4 \<and> \<not> a5 \<and> a6)
       \<and> ((if a1 then c1 else if a2 then c2 else if a3 then c3 else if a4 then c4
            else if a5 then c5 else if a6 then c6 else d) = d
              \<longleftrightarrow> \<not> a1 \<and> \<not> a2 \<and> \<not> a3 \<and> \<not> a4 \<and> \<not> a5 \<and> \<not> a6)
       \<and> P"
  using assms by auto

lemma capital_letters:
  "65 \<le> codeUnit c \<and> codeUnit c \<le> 90 \<longleftrightarrow> c \<in> set ''ABCDEFGHIJKLMNOPQRSTUVWXYZ''"
proof
  assume a: "65 \<le> codeUnit c \<and> codeUnit c \<le> 90"
  have letters: "map char_of [65..<91::nat] = ''ABCDEFGHIJKLMNOPQRSTUVWXYZ''"
    by code_simp
  from a have "65 \<le> codeUnit c \<and> codeUnit c < 91" by arith
  then have "codeUnit c \<in> set [65..<91]" by (simp only: set_upt atLeastLessThan_iff)
  then have "char_of (codeUnit c) \<in> set (map char_of [65..<91::nat])"
    by (simp only: set_map) (rule imageI)
  then show "c \<in> set ''ABCDEFGHIJKLMNOPQRSTUVWXYZ''"
    by (simp only: letters codeUnit_def char_of_char)
next
  assume "c \<in> set ''ABCDEFGHIJKLMNOPQRSTUVWXYZ''"
  then show "65 \<le> codeUnit c \<and> codeUnit c \<le> 90"
    by (auto simp add: codeUnit_def)
qed

lemma toLowerChar_explicit:
  "toLowerChar c =
     (if c \<in> set ''ABCDEFGHIJKLMNOPQRSTUVWXYZ''
         \<or> (192 \<le> (of_char c :: nat) \<and> (of_char c :: nat) \<le> 222 \<and> (of_char c :: nat) \<noteq> 215)
      then char_of ((of_char c :: nat) + 32) else c)"
  unfolding toLowerChar_def Let_def capital_letters
  by (simp only: codeUnit_def)

lemma categories_distinct:
  "distinct [ ''interest_rates'', ''inflation'', ''stock_market'', ''economic_indicators'',
              ''employment'', ''currency'', ''general_financial'' ]"
  by simp

text \<open>
  C8. \<^verbatim>\<open>determineCategory\<close> is a function of the record's title and content, defined
  for every pair of strings, and its value is one of the seven categories of the closed
  set. The text examined is the lowercased content, a space, and the lowercased title;
  a keyword list hits when one of its keywords occurs in that text. The six lists are
  tried in the order interest rates, inflation, stock market, economic indicators,
  employment, currency: a category is returned exactly when its list is the first that
  hits, and \<^verbatim>\<open>general_financial\<close> exactly when none hits. Lowercasing moves the
  letters A to Z and the Latin-1 capitals to the code unit 32 places further and leaves
  every other code unit as it is.
\<close>

theorem determineCategory_total:
  "let body = map toLowerChar (nr_content result) @ '' '' @ map toLowerChar (nr_title result);
       hit = (\<lambda>keywords. list_ex (\<lambda>keyword. sublist keyword body) keywords);
       rates = hit [''interest rate'', ''fed rate'', ''federal reserve'', ''monetary policy''];
       inflation = hit [''inflation'', ''cpi'', ''consumer price'', ''price index''];
       stocks = hit [''stock'', ''equity'', ''market'', ''dow'', ''nasdaq'', ''s&p''];
       economy = hit [''gdp'', ''economic growth'', ''recession'', ''economy''];
       employment = hit [''employment'', ''unemployment'', ''jobs'', ''labor''];
       currency = hit [''currency'', ''forex'', ''exchange rate'', ''dollar'']
   in determineCategory result
        \<in> { ''interest_rates'', ''inflation'', ''stock_market'', ''economic_indicators'',
            ''employment'', ''currency'', ''general_financial'' }
      \<and> (determineCategory result = ''interest_rates'' \<longleftrightarrow> rates)
      \<and> (determineCategory result = ''inflation'' \<longleftrightarrow> \<not> rates \<and> inflation)
      \<and> (determineCategory result = ''stock_market'' \<longleftrightarrow> \<not> rates \<and> \<not> inflation \<and> stocks)
      \<and> (determineCategory result = ''economic_indicators''
            \<longleftrightarrow> \<not> rates \<and> \<not> inflation \<and> \<not> stocks \<and> economy)
      \<and> (determineCategory result = ''employment''
            \<longleftrightarrow> \<not> rates \<and> \<not> inflation \<and> \<not> stocks \<and> \<not> economy \<and> employment)
      \<and> (determineCategory result = ''currency''
            \<longleftrightarrow> \<not> rates \<and> \<not> inflation \<and> \<not> stocks \<and> \<not> economy \<and> \<not> employment
                 \<and> currency)
      \<and> (determineCategory result = ''general_financial''
            \<longleftrightarrow> \<not> rates \<and> \<not> inflation \<and> \<not> stocks \<and> \<not> economy \<and> \<not> employment
                 \<and> \<not> currency)
      \<and> toLowerChar c =
          (if c \<in> set ''ABCDEFGHIJKLMNOPQRSTUVWXYZ''
              \<or> (192 \<le> (of_char c :: nat) \<and> (of_char c :: nat) \<le> 222
                  \<and> (of_char c :: nat) \<noteq> 215)
           then char_of ((of_char c :: nat) + 32) else c)"
  unfolding determineCategory_def categoryText_def matchesAny_def toLowerCase_def Let_def
  by (rule first_hit_chain [OF categories_distinct toLowerChar_explicit])


text \<open>Five records. A title in capitals is matched after lowercasing. With an inflation
  keyword and an interest-rate keyword the earlier test decides, and so it does with
  a stock-market keyword and an economy keyword. A keyword may span the space that
  joins content and title. A text without any keyword falls into the default
  category.\<close>

theorem determineCategory_total_witness:
  "map toLowerChar ''FEDERAL RESERVE holds: S&P 500'' = ''federal reserve holds: s&p 500''
   \<and> determineCategory headlineRecord = ''interest_rates''
   \<and> determineCategory outlookRecord = ''interest_rates''
   \<and> determineCategory indexRecord = ''stock_market''
   \<and> determineCategory splitRecord = ''interest_rates''
   \<and> determineCategory newsRecord = ''general_financial''"
proof -
  have lower: "map toLowerChar ''FEDERAL RESERVE holds: S&P 500''
                 = ''federal reserve holds: s&p 500''"
    by code_simp
  have headline: "determineCategory headlineRecord = ''interest_rates''"
    by (rule determineCategory_total [where result = headlineRecord, unfolded Let_def,
          THEN conjunct2, THEN conjunct1, THEN iffD2]) code_simp
  have outlook: "determineCategory outlookRecord = ''interest_rates''"
    by (rule determineCategory_total [where result = outlookRecord, unfolded Let_def,
          THEN conjunct2, THEN conjunct1, THEN iffD2]) code_simp
  have index: "determineCategory indexRecord = ''stock_market''"
    by (rule determineCategory_total [where result = indexRecord, unfolded Let_def,
          THEN conjunct2, THEN conjunct2, THEN conjunct2, THEN conjunct1, THEN iffD2])
       code_simp
  have split: "determineCategory splitRecord = ''interest_rates''"
    by (rule determineCategory_total [where result = splitRecord, unfolded Let_def,
          THEN conjunct2, THEN conjunct1, THEN iffD2]) code_simp
  have news: "determineCategory newsRecord = ''general_financial''"
    by (rule determineCategory_total [where result = newsRecord, unfolded Let_def,
          THEN conjunct2, THEN conjunct2, THEN conjunct2, THEN conjunct2, THEN conjunct2,
          THEN conjunct2, THEN conjunct2, THEN conjunct1, THEN iffD2])
       code_simp
  from lower headline outlook index split news show ?thesis by (intro conjI)
qed

section \<open>Properties of the batch search and the workflow coordinator\<close>

subsection \<open>executeBatchSearch\<close>

text \<open>With a positive chunk size the loop returns, having run every query in order.\<close>

lemma jsSlice_chunk:
  assumes "0 \<le> i" "0 < k" "i < int (length xs)"
  shows "jsSlice xs i (i + k) = take (nat k) (drop (nat i) xs)"
proof -
  have s: "relativeIndex (length xs) i = nat i"
    using assms by (simp add: relativeIndex_def)
  have e: "relativeIndex (length xs) (i + k) = min (nat i + nat k) (length xs)"
    using assms by (simp add: relativeIndex_def nat_add_distrib)
  have "take (min (nat i + nat k) (length xs) - nat i) (drop (nat i) xs)
          = take (nat k) (drop (nat i) xs)"
    using assms by (simp add: min_def)
  then show ?thesis by (simp add: jsSlice_def s e)
qed

lemma batchLoop_positive:
  assumes "0 < k" "0 \<le> i"
  shows "batchLoop config options k queries i results
           = Some (results @ map (runQuery config options) (drop (nat i) queries))"
  using assms(2)
proof (induction "length queries - nat i" arbitrary: i results rule: less_induct)
  case less
  show ?case
  proof (cases "i < int (length queries)")
    case True
    have smaller: "length queries - nat (i + k) < length queries - nat i"
      using True less.prems assms(1) by linarith
    have next_ok: "0 \<le> i + k" using less.prems assms(1) by simp
    have chunk: "jsSlice queries i (i + k) = take (nat k) (drop (nat i) queries)"
      using less.prems assms(1) True by (rule jsSlice_chunk)
    have rest: "drop (nat (i + k)) queries = drop (nat k) (drop (nat i) queries)"
      using less.prems assms(1) by (simp add: nat_add_distrib add.commute)
    have "batchLoop config options k queries i results
            = batchLoop config options k queries (i + k)
                (results @ map (runQuery config options) (jsSlice queries i (i + k)))"
      using True by (subst batchLoop.simps) simp
    also have "\<dots> = Some ((results @ map (runQuery config options) (jsSlice queries i (i + k)))
                  @ map (runQuery config options) (drop (nat (i + k)) queries))"
      using smaller next_ok by (rule less.hyps)
    also have "\<dots> = Some (results @ map (runQuery config options) (drop (nat i) queries))"
    proof -
      have "take (nat k) (drop (nat i) queries) @ drop (nat k) (drop (nat i) queries)
              = drop (nat i) queries"
        by (rule append_take_drop_id)
      then have "map (runQuery config options) (take (nat k) (drop (nat i) queries))
              @ map (runQuery config options) (drop (nat k) (drop (nat i) queries))
              = map (runQuery config options) (drop (nat i) queries)"
        by (simp only: map_append [symmetric])
      then show ?thesis
        unfolding chunk rest by (simp only: append_assoc)
    qed
    finally show ?thesis .
  next
    case False
    then have "drop (nat i) queries = []" by simp
    with False show ?thesis by (subst batchLoop.simps) simp
  qed
qed

text \<open>With a chunk size of 0 or less the loop returns only if there is no query.\<close>

lemma batchLoop_returns_only_when_done:
  assumes "batchLoop config options k queries i results = Some out"
  shows "\<not> (k \<le> 0 \<and> i < int (length queries))"
proof (rule batchLoop.raw_induct
    [where P = "\<lambda>_ _ k queries i _ _. \<not> (k \<le> 0 \<and> i < int (length queries))", OF _ assms],
    goal_cases)
  case (1 loop config options k queries i results out)
  show ?case
  proof
    assume stuck: "k \<le> 0 \<and> i < int (length queries)"
    with 1(2) have "loop config options k queries (i + k)
        (results @ map (runQuery config options) (jsSlice queries i (i + k))) = Some out"
      by simp
    then have "\<not> (k \<le> 0 \<and> i + k < int (length queries))" by (rule 1(1))
    with stuck show False by simp
  qed
qed

lemma batchLoop_result:
  assumes "batchLoop config options k queries 0 [] = Some out"
  shows "out = map (runQuery config options) queries"
proof (cases "0 < k")
  case True
  from batchLoop_positive [OF True, of 0 config options queries "[]"] assms show ?thesis by simp
next
  case False
  with batchLoop_returns_only_when_done [OF assms] have "queries = []" by simp
  with assms show ?thesis by (subst (asm) batchLoop.simps) simp
qed

lemma so_query_settled: "so_query (settledOperation config query options call) = query"
  by (simp add: settledOperation_def executePerplexitySearch_def executeFirecrawlSearch_def
      Let_def split: settled.splits)

lemma executeParallelSearch_query:
  assumes "executeParallelSearch config query options call = Inr r"
  shows "sr_query r = query"
proof (cases "(\<not> enabledPerplexity config options \<and> \<not> enabledFirecrawl config options)
              \<or> timeoutFires config options call")
  case True
  note run = executeParallelSearch_failure [OF True, of query]
  show ?thesis
  proof (cases "cfg_fallbackEnabled config \<and>
      (perplexityUsable (so_perplexity (settledOperation config query options call))
       \<or> firecrawlUsable (so_firecrawl (settledOperation config query options call)))")
    case True
    then have "failurePath config (settledOperation config query options call) m =
        Inr \<lparr> sr_searchId = Some (so_id (settledOperation config query options call)),
              sr_query = so_query (settledOperation config query options call),
              sr_results = Some (combineSearchResults (settledOperation config query options call)),
              sr_status = ''partial_success'',
              sr_sources = Some (SourceList (cr_sources
                (combineSearchResults (settledOperation config query options call)))),
              sr_errors = Some (so_errors (settledOperation config query options call)),
              sr_error = None \<rparr>" for m
      by (simp add: failurePath_usable)
    with run assms show ?thesis by (simp add: so_query_settled)
  next
    case False
    then have "failurePath config (settledOperation config query options call) m = Inl m" for m
      using failurePath_unusable failurePath_disabled by blast
    then show ?thesis using run assms by simp
  qed
next
  case False
  then show ?thesis using assms executeParallelSearch_completed [of config options call query]
    by auto
qed

lemma runQuery_query: "sr_query (runQuery config options qi) = fst qi"
  by (cases "executeParallelSearch config (fst qi) options (snd qi)")
     (simp_all add: runQuery_def executeParallelSearch_query)

lemma executeBatchSearch_Some:
  assumes "executeBatchSearch config queries options = Some batch"
  shows "batch = \<lparr> br_queries = map fst queries,
                   br_results = map (runQuery config options) queries,
                   br_successful = filter (\<lambda>r. sr_status r = ''completed'')
                                     (map (runQuery config options) queries),
                   br_failed = filter (\<lambda>r. sr_status r \<noteq> ''completed'')
                                     (map (runQuery config options) queries) \<rparr>"
proof -
  from assms obtain out
    where out: "batchLoop config options (maxConcurrent config options) queries 0 [] = Some out"
    by (auto simp add: executeBatchSearch_def)
  then have "out = map (runQuery config options) queries" by (rule batchLoop_result)
  with assms out show ?thesis by (simp add: executeBatchSearch_def)
qed

lemma executeBatchSearch_returns:
  assumes "0 < maxConcurrent config options"
  shows "executeBatchSearch config queries options \<noteq> None"
  using batchLoop_positive [OF assms, of 0 config options queries "[]"]
  by (simp add: executeBatchSearch_def)

text \<open>
  C10. Whenever \<^verbatim>\<open>executeBatchSearch\<close> returns, its results hold one entry per
  input query, in query order (the entry of a query is its search result, or the failed
  entry if the search threw); the successful list is exactly the entries with status
  \<^verbatim>\<open>completed\<close>, the failed list every other entry, so an entry of the
  \<^verbatim>\<open>partial_success\<close> fallback is in the failed list and not in the successful one;
  and the coordinator's combination reads only the entries of the successful list.
  The call returns for every positive chunk size.
\<close>

theorem executeBatchSearch_partition:
  "(\<forall>batch. executeBatchSearch config queries options = Some batch \<longrightarrow>
       br_results batch = map (runQuery config options) queries
     \<and> length (br_results batch) = length queries
     \<and> map sr_query (br_results batch) = map fst queries
     \<and> br_successful batch = filter (\<lambda>r. sr_status r = ''completed'') (br_results batch)
     \<and> br_failed batch = filter (\<lambda>r. sr_status r \<noteq> ''completed'') (br_results batch)
     \<and> (\<forall>r \<in> set (br_results batch). sr_status r = ''partial_success''
           \<longrightarrow> r \<in> set (br_failed batch) \<and> r \<notin> set (br_successful batch))
     \<and> sv_allResults (combineSearchResults_service batch originalQuery searchId)
         = concat (map (\<lambda>r. case sr_results r of Some combined \<Rightarrow> cr_allResults combined
                                                | None \<Rightarrow> [])
                     (filter (\<lambda>r. sr_status r = ''completed'') (br_results batch))))
   \<and> (0 < maxConcurrent config options \<longrightarrow> executeBatchSearch config queries options \<noteq> None)"
proof (intro conjI allI impI)
  fix batch
  assume "executeBatchSearch config queries options = Some batch"
  then have b: "batch = \<lparr> br_queries = map fst queries,
                   br_results = map (runQuery config options) queries,
                   br_successful = filter (\<lambda>r. sr_status r = ''completed'')
                                     (map (runQuery config options) queries),
                   br_failed = filter (\<lambda>r. sr_status r \<noteq> ''completed'')
                                     (map (runQuery config options) queries) \<rparr>"
    by (rule executeBatchSearch_Some)
  show "br_results batch = map (runQuery config options) queries" by (simp add: b)
  show "length (br_results batch) = length queries" by (simp add: b)
  show "map sr_query (br_results batch) = map fst queries"
    by (simp add: b runQuery_query comp_def)
  show "br_successful batch = filter (\<lambda>r. sr_status r = ''completed'') (br_results batch)"
    by (simp add: b)
  show "br_failed batch = filter (\<lambda>r. sr_status r \<noteq> ''completed'') (br_results batch)"
    by (simp add: b)
  show "sv_allResults (combineSearchResults_service batch originalQuery searchId)
         = concat (map (\<lambda>r. case sr_results r of Some combined \<Rightarrow> cr_allResults combined
                                                | None \<Rightarrow> [])
                     (filter (\<lambda>r. sr_status r = ''completed'') (br_results batch)))"
    by (simp add: b combineSearchResults_service_def Let_def)
  show "\<forall>r \<in> set (br_results batch). sr_status r = ''partial_success''
           \<longrightarrow> r \<in> set (br_failed batch) \<and> r \<notin> set (br_successful batch)"
  proof (intro ballI impI)
    fix r
    assume r: "r \<in> set (br_results batch)" "sr_status r = ''partial_success''"
    then have "sr_status r \<noteq> ''completed''" by simp
    with r(1) show "r \<in> set (br_failed batch) \<and> r \<notin> set (br_successful batch)"
      by (simp add: b)
  qed
next
  assume "0 < maxConcurrent config options"
  then show "executeBatchSearch config queries options \<noteq> None"
    by (rule executeBatchSearch_returns)
qed

text \<open>The batch of three under the default configuration: one completed entry in the
  successful list, the partial success and the timeout in the failed list.\<close>

theorem executeBatchSearch_partition_witness:
  "0 < maxConcurrent orchestratorConfig noOptions
   \<and> (\<exists>batch. executeBatchSearch orchestratorConfig batchQueries noOptions = Some batch
        \<and> map sr_status (br_results batch) = [''completed'', ''partial_success'', ''failed'']
        \<and> map sr_query (br_results batch) = map fst batchQueries
        \<and> map sr_status (br_successful batch) = [''completed'']
        \<and> map sr_status (br_failed batch) = [''partial_success'', ''failed''])"
proof -
  have pos: "0 < maxConcurrent orchestratorConfig noOptions"
    by (simp add: maxConcurrent_def orchestratorConfig_def noOptions_def truthyNum_def)
  note part = executeBatchSearch_partition [of orchestratorConfig batchQueries noOptions]
  from part [THEN conjunct2, THEN mp, OF pos] obtain batch
    where batch: "executeBatchSearch orchestratorConfig batchQueries noOptions = Some batch"
    by (cases "executeBatchSearch orchestratorConfig batchQueries noOptions") simp_all
  have run: "map sr_status (map (runQuery orchestratorConfig noOptions) batchQueries)
               = [''completed'', ''partial_success'', ''failed'']"
    by code_simp
  note facts = part [THEN conjunct1, THEN spec, THEN mp, OF batch]
  note results = facts [THEN conjunct1]
  note queries = facts [THEN conjunct2, THEN conjunct2, THEN conjunct1]
  note successful = facts [THEN conjunct2, THEN conjunct2, THEN conjunct2, THEN conjunct1]
  note failed = facts [THEN conjunct2, THEN conjunct2, THEN conjunct2, THEN conjunct2,
      THEN conjunct1]
  from run results have statuses: "map sr_status (br_results batch)
      = [''completed'', ''partial_success'', ''failed'']" by simp
  have "map sr_status (filter (\<lambda>r. sr_status r = ''completed'') xs)
          = filter (\<lambda>s. s = ''completed'') (map sr_status xs)" for xs :: "search_result list"
    by (induction xs) simp_all
  with statuses successful have s: "map sr_status (br_successful batch) = [''completed'']"
    by simp
  have "map sr_status (filter (\<lambda>r. sr_status r \<noteq> ''completed'') xs)
          = filter (\<lambda>s. s \<noteq> ''completed'') (map sr_status xs)" for xs :: "search_result list"
    by (induction xs) simp_all
  with statuses failed have f: "map sr_status (br_failed batch) = [''partial_success'', ''failed'']"
    by simp
  show ?thesis
    by (intro conjI exI [of _ batch]) (fact pos, fact batch, fact statuses, fact queries, fact s, fact f)
qed

subsection \<open>executeFinancialSearch\<close>

lemma validateFinancialQuestion_rejects:
  "\<not> v_isValid (validateFinancialQuestion question)
     \<longleftrightarrow> length (jsTrim question) < 5 \<or> length (jsTrim question) > 500"
  by (auto simp add: validateFinancialQuestion_def Let_def jsTrim_def)

lemma validateFinancialQuestion_error:
  assumes "\<not> v_isValid (validateFinancialQuestion question)"
  shows "\<exists>message. v_error (validateFinancialQuestion question) = Some message"
  using assms by (simp add: validateFinancialQuestion_def Let_def split: if_splits)

lemma planFinancialResearch_throws_iff:
  "(\<exists>message. planFinancialResearch planning userQuery = Inl message)
     \<longleftrightarrow> \<not> v_isValid (validateFinancialQuestion userQuery)"
  by (simp add: planFinancialResearch_def Let_def)

lemma generateResearchPlan_subQuestions:
  "rp_subQuestions (generateResearchPlan planning userQuery) \<noteq> None"
  by (simp add: generateResearchPlan_def fallbackPlan_def split: sum.splits)

lemma planningPhase_rejected:
  assumes "sc_enablePlanning config" and "fo_enablePlanning options \<noteq> Some False"
    and "\<not> v_isValid (validateFinancialQuestion userQuery)"
  shows "planningPhase config options planning userQuery
           = ([userQuery],
              \<lparr> ps_success = False, ps_subQuestions = [userQuery],
                ps_error = Some (''Invalid question: ''
                                  @ the (v_error (validateFinancialQuestion userQuery))),
                ps_fallback = Some True, ps_note = None, ps_originalPlan = None \<rparr>)"
proof -
  from assms(3) obtain message
    where "v_error (validateFinancialQuestion userQuery) = Some message"
    using validateFinancialQuestion_error by auto
  with assms show ?thesis
    by (simp add: planningPhase_def planFinancialResearch_def planningFallback_def
        invalidQuestion_def Let_def)
qed

lemma planningPhase_accepted:
  assumes "sc_enablePlanning config" and "fo_enablePlanning options \<noteq> Some False"
    and "v_isValid (validateFinancialQuestion userQuery)"
  shows "\<exists>planned. rp_subQuestions (generateResearchPlan planning userQuery) = Some planned
           \<and> planningPhase config options planning userQuery
             = (jsSlice planned 0 (sc_maxSubQuestions config),
                \<lparr> ps_success = True,
                  ps_subQuestions = jsSlice planned 0 (sc_maxSubQuestions config),
                  ps_error = None, ps_fallback = None, ps_note = None,
                  ps_originalPlan = Some (generateResearchPlan planning userQuery) \<rparr>)"
proof -
  obtain planned where p: "rp_subQuestions (generateResearchPlan planning userQuery) = Some planned"
    using generateResearchPlan_subQuestions [of planning userQuery] by auto
  show ?thesis
    using assms p by (simp add: planningPhase_def planFinancialResearch_def Let_def)
qed

lemma planningPhase_fallback_iff:
  assumes "sc_enablePlanning config" and "fo_enablePlanning options \<noteq> Some False"
  shows "ps_fallback (snd (planningPhase config options planning userQuery)) = Some True
           \<longleftrightarrow> \<not> v_isValid (validateFinancialQuestion userQuery)"
proof (cases "v_isValid (validateFinancialQuestion userQuery)")
  case True
  from planningPhase_accepted [OF assms True, of planning] show ?thesis
    using True by auto
next
  case False
  from planningPhase_rejected [OF assms False, of planning] show ?thesis
    using False by simp
qed

lemma requestPlan_failure:
  assumes "v_isValid (validateFinancialQuestion userQuery)"
    and "pw_modelError planning = Some failure
         \<or> pw_modelError planning = None
             \<and> pw_invoke planning (jsTrim userQuery) = Inl failure
         \<or> (\<exists>content. pw_modelError planning = None
                \<and> pw_invoke planning (jsTrim userQuery) = Inr content
                \<and> parseResearchPlan (pw_jsonParse planning) content = Inl failure)"
  shows "requestPlan planning userQuery = Inl failure"
  using assms
  by (auto simp add: requestPlan_def createFinancialPlanningPrompt_def Let_def)

lemma planningPhase_absorbs:
  assumes "sc_enablePlanning config" and "fo_enablePlanning options \<noteq> Some False"
    and "v_isValid (validateFinancialQuestion userQuery)"
    and "requestPlan planning userQuery = Inl failure"
  shows "planningPhase config options planning userQuery
           = (jsSlice [ ''Research the basic information about: '' @ userQuery,
                        ''Find recent data and metrics related to: '' @ userQuery,
                        ''Analyze the context and implications of: '' @ userQuery ]
                0 (sc_maxSubQuestions config),
              \<lparr> ps_success = True,
                ps_subQuestions =
                  jsSlice [ ''Research the basic information about: '' @ userQuery,
                            ''Find recent data and metrics related to: '' @ userQuery,
                            ''Analyze the context and implications of: '' @ userQuery ]
                    0 (sc_maxSubQuestions config),
                ps_error = None, ps_fallback = None, ps_note = None,
                ps_originalPlan = Some (fallbackPlan userQuery failure) \<rparr>)"
  using assms
  by (simp add: planningPhase_def planFinancialResearch_def generateResearchPlan_def
      fallbackPlan_def Let_def)

lemma searchPhase_single:
  "searchPhase config orchestrator options world [userQuery] =
     (if sc_enableSearch config \<and> fo_enableSearch options \<noteq> Some False
      then (case executeParallelSearch orchestrator userQuery
                   \<lparr> opt_enablePerplexity = fo_enablePerplexity options,
                     opt_enableFirecrawl = fo_enableFirecrawl options,
                     opt_maxConcurrent = None \<rparr>
                   (world 0 userQuery) of
              Inr searchResults \<Rightarrow>
                Some (Inr \<lparr> br_queries = [userQuery], br_results = [searchResults],
                            br_successful = [searchResults], br_failed = [] \<rparr>)
            | Inl message \<Rightarrow> Some (Inl message))
      else Some (Inl ''Search is disabled''))"
  by (simp add: searchPhase_def)

lemma searchPhase_single_returns:
  "\<exists>outcome. searchPhase config orchestrator options world [userQuery] = Some outcome
     \<and> (\<forall>batch. outcome = Inr batch \<longrightarrow> br_queries batch = [userQuery])"
  unfolding searchPhase_single
  by (auto split: sum.splits)

lemma executeFinancialSearch_steps:
  assumes "planningPhase config options planning userQuery = (subQuestions, step)"
    and "searchPhase config orchestrator options world subQuestions = Some (Inr batch)"
  shows "\<exists>response steps.
           executeFinancialSearch config orchestrator planning world processSearchResults
               searchId userQuery options = Some response
           \<and> rs_steps response = Some steps
           \<and> ws_planning steps = step"
  using assms
  by (simp add: executeFinancialSearch_def Let_def split: prod.splits)

text \<open>A model that answers with a well-formed plan of two sub-questions: these are
  searched. An answer with a single sub-question does not pass \<^verbatim>\<open>parseResearchPlan\<close>,
  and the fallback plan takes its place.\<close>

lemma planningPhase_examples:
  "fst (planningPhase serviceConfig noServiceOptions modelAnswers
          ''What is the stock price of Tesla?'')
     = [ ''What is the current stock price of Tesla?'',
         ''How did the Tesla stock move this year?'' ]
   \<and> parseResearchPlan
         (\<lambda>content. Inr \<lparr> jp_originalQuestion = Some ''What is the stock price of Tesla?'',
                            jp_subQuestions = Elements
                              [JString ''What is the current stock price of Tesla?''],
                            jp_researchFocus = Some ''Price'' \<rparr>)
         ''{...}''
     = Inl ''Failed to parse research plan: Must have 2-4 sub-questions''"
  by code_simp

text \<open>
  C9, as amended. Let planning be enabled. \<^verbatim>\<open>planFinancialResearch\<close> throws exactly
  when validation rejects the question, which is when the trimmed question is shorter
  than 5 or longer than 500 characters, and exactly then the coordinator records the
  planning fallback. In that case the sub-question list handed to the search phase is
  exactly \<^verbatim>\<open>[userQuery]\<close>, the search phase returns, and whenever it yields search
  results \<^verbatim>\<open>executeFinancialSearch\<close> returns a response whose workflow planning step
  records the fallback: success false, fallback true, the error
  \<^verbatim>\<open>Invalid question: ...\<close>, the sub-questions \<^verbatim>\<open>[userQuery]\<close>. A failure inside
  \<^verbatim>\<open>generateResearchPlan\<close> for an accepted question (the model cannot be initialised,
  the call of the model throws, or its answer does not parse) is not thrown: the
  sub-questions searched are the first \<^verbatim>\<open>maxSubQuestions\<close> of the three templated
  questions of the fallback plan, and a response then records a planning success
  without fallback.
\<close>

theorem executeFinancialSearch_planning_throws:
  assumes "sc_enablePlanning config" and "fo_enablePlanning options \<noteq> Some False"
  shows "((\<exists>message. planFinancialResearch planning userQuery = Inl message)
            \<longleftrightarrow> length (jsTrim userQuery) < 5 \<or> length (jsTrim userQuery) > 500)
     \<and> (ps_fallback (snd (planningPhase config options planning userQuery)) = Some True
            \<longleftrightarrow> length (jsTrim userQuery) < 5 \<or> length (jsTrim userQuery) > 500)
     \<and> (length (jsTrim userQuery) < 5 \<or> length (jsTrim userQuery) > 500 \<longrightarrow>
          fst (planningPhase config options planning userQuery) = [userQuery]
          \<and> (\<exists>outcome. searchPhase config orchestrator options world [userQuery] = Some outcome
               \<and> (\<forall>batch. outcome = Inr batch \<longrightarrow>
                     br_queries batch = [userQuery]
                     \<and> (\<exists>response steps.
                           executeFinancialSearch config orchestrator planning world
                               processSearchResults searchId userQuery options = Some response
                           \<and> rs_steps response = Some steps
                           \<and> ws_planning steps =
                               \<lparr> ps_success = False, ps_subQuestions = [userQuery],
                                 ps_error = Some (''Invalid question: ''
                                   @ the (v_error (validateFinancialQuestion userQuery))),
                                 ps_fallback = Some True, ps_note = None,
                                 ps_originalPlan = None \<rparr>))))
     \<and> (\<not> (length (jsTrim userQuery) < 5 \<or> length (jsTrim userQuery) > 500)
          \<and> (pw_modelError planning = Some failure
              \<or> pw_modelError planning = None
                  \<and> pw_invoke planning (jsTrim userQuery) = Inl failure
              \<or> (\<exists>content. pw_modelError planning = None
                     \<and> pw_invoke planning (jsTrim userQuery) = Inr content
                     \<and> parseResearchPlan (pw_jsonParse planning) content = Inl failure)) \<longrightarrow>
          (let planned = jsSlice
                 [ ''Research the basic information about: '' @ userQuery,
                   ''Find recent data and metrics related to: '' @ userQuery,
                   ''Analyze the context and implications of: '' @ userQuery ]
                 0 (sc_maxSubQuestions config)
           in fst (planningPhase config options planning userQuery) = planned
              \<and> (\<forall>batch. searchPhase config orchestrator options world planned = Some (Inr batch)
                    \<longrightarrow> (\<exists>response steps.
                           executeFinancialSearch config orchestrator planning world
                               processSearchResults searchId userQuery options = Some response
                           \<and> rs_steps response = Some steps
                           \<and> ps_success (ws_planning steps) = True
                           \<and> ps_fallback (ws_planning steps) = None
                           \<and> ps_error (ws_planning steps) = None
                           \<and> ps_subQuestions (ws_planning steps) = planned))))"
  (is "?throws \<and> ?recorded \<and> (?rejected \<longrightarrow> ?fallback) \<and> (?accepted \<and> ?fails \<longrightarrow> ?absorbed)")
proof -
  have throws: ?throws
    by (simp only: planFinancialResearch_throws_iff validateFinancialQuestion_rejects)
  have recorded: ?recorded
    by (simp only: planningPhase_fallback_iff [OF assms] validateFinancialQuestion_rejects)
  have rejected: "?rejected \<longrightarrow> ?fallback"
  proof (rule impI)
  assume ?rejected
  then have invalid: "\<not> v_isValid (validateFinancialQuestion userQuery)"
    by (simp only: validateFinancialQuestion_rejects)
  note plan = planningPhase_rejected [OF assms invalid, of planning]
  obtain outcome
    where outcome: "searchPhase config orchestrator options world [userQuery] = Some outcome"
      and queries: "\<forall>batch. outcome = Inr batch \<longrightarrow> br_queries batch = [userQuery]"
    using searchPhase_single_returns [of config orchestrator options world userQuery] by blast
  have finished: "\<exists>response steps.
                      executeFinancialSearch config orchestrator planning world
                          processSearchResults searchId userQuery options = Some response
                      \<and> rs_steps response = Some steps
                      \<and> ws_planning steps =
                          \<lparr> ps_success = False, ps_subQuestions = [userQuery],
                            ps_error = Some (''Invalid question: ''
                              @ the (v_error (validateFinancialQuestion userQuery))),
                            ps_fallback = Some True, ps_note = None,
                            ps_originalPlan = None \<rparr>"
    if "outcome = Inr batch" for batch
    using executeFinancialSearch_steps [OF plan, of orchestrator world batch] outcome that
    by simp
  have first: "fst (planningPhase config options planning userQuery) = [userQuery]"
    by (simp only: plan fst_conv)
  from outcome queries finished have
    "\<exists>outcome. searchPhase config orchestrator options world [userQuery] = Some outcome
       \<and> (\<forall>batch. outcome = Inr batch \<longrightarrow>
             br_queries batch = [userQuery]
             \<and> (\<exists>response steps.
                   executeFinancialSearch config orchestrator planning world
                       processSearchResults searchId userQuery options = Some response
                   \<and> rs_steps response = Some steps
                   \<and> ws_planning steps =
                       \<lparr> ps_success = False, ps_subQuestions = [userQuery],
                         ps_error = Some (''Invalid question: ''
                           @ the (v_error (validateFinancialQuestion userQuery))),
                         ps_fallback = Some True, ps_note = None,
                         ps_originalPlan = None \<rparr>))"
    by (intro exI [of _ outcome] conjI allI impI) auto
  with first show ?fallback by (rule conjI)
  qed
  have absorbed: "?accepted \<and> ?fails \<longrightarrow> ?absorbed"
  proof (rule impI)
  assume a: "?accepted \<and> ?fails"
  then have valid: "v_isValid (validateFinancialQuestion userQuery)"
    using validateFinancialQuestion_rejects [of userQuery] by (simp only: simp_thms)
  from a have fails: ?fails by (rule conjunct2)
  note failed = requestPlan_failure [OF valid fails]
  note plan = planningPhase_absorbs [OF assms valid failed]
  show ?absorbed
    unfolding Let_def
  proof (intro conjI allI impI)
    show "fst (planningPhase config options planning userQuery)
            = jsSlice [ ''Research the basic information about: '' @ userQuery,
                        ''Find recent data and metrics related to: '' @ userQuery,
                        ''Analyze the context and implications of: '' @ userQuery ]
                0 (sc_maxSubQuestions config)"
      by (simp only: plan fst_conv)
  next
    fix batch
    assume "searchPhase config orchestrator options world
              (jsSlice [ ''Research the basic information about: '' @ userQuery,
                         ''Find recent data and metrics related to: '' @ userQuery,
                         ''Analyze the context and implications of: '' @ userQuery ]
                 0 (sc_maxSubQuestions config)) = Some (Inr batch)"
    from executeFinancialSearch_steps [OF plan this, of processSearchResults searchId]
    obtain response steps
      where "executeFinancialSearch config orchestrator planning world processSearchResults
               searchId userQuery options = Some response"
        and "rs_steps response = Some steps"
        and "ws_planning steps =
               \<lparr> ps_success = True,
                 ps_subQuestions =
                   jsSlice [ ''Research the basic information about: '' @ userQuery,
                             ''Find recent data and metrics related to: '' @ userQuery,
                             ''Analyze the context and implications of: '' @ userQuery ]
                     0 (sc_maxSubQuestions config),
                 ps_error = None, ps_fallback = None, ps_note = None,
                 ps_originalPlan = Some (fallbackPlan userQuery failure) \<rparr>"
      by (elim exE conjE) (rule that)
    then show "\<exists>response steps.
                 executeFinancialSearch config orchestrator planning world
                     processSearchResults searchId userQuery options = Some response
                 \<and> rs_steps response = Some steps
                 \<and> ps_success (ws_planning steps) = True
                 \<and> ps_fallback (ws_planning steps) = None
                 \<and> ps_error (ws_planning steps) = None
                 \<and> ps_subQuestions (ws_planning steps)
                     = jsSlice [ ''Research the basic information about: '' @ userQuery,
                                 ''Find recent data and metrics related to: '' @ userQuery,
                                 ''Analyze the context and implications of: '' @ userQuery ]
                         0 (sc_maxSubQuestions config)"
      by (intro exI [of _ response] exI [of _ steps]) simp
  qed
  qed
  from throws recorded rejected absorbed show ?thesis
    by (intro conjI)
qed


text \<open>
  C9 as stated fails. The question \<^verbatim>\<open>test\<close> is rejected by validation, so
  \<^verbatim>\<open>planFinancialResearch\<close> throws; both providers hang, so the single search throws
  \<^verbatim>\<open>Search timeout\<close>, and the response carries the error and no planning step. For
  the accepted question \<^verbatim>\<open>What is the stock price of Tesla?\<close> the call of the model
  throws inside the planning stage; \<^verbatim>\<open>generateResearchPlan\<close> catches it, and the
  response records a planning success with the three templated sub-questions, not the
  fallback to the original query.
\<close>

theorem executeFinancialSearch_planning_and_search_fail:
  "planFinancialResearch modelFails ''test''
     = Inl ''Invalid question: Question is too short (minimum 5 characters)''
   \<and> executeFinancialSearch serviceConfig orchestratorConfig modelFails allHang
         countEntries ''search_9'' ''test'' noServiceOptions
     = Some \<lparr> rs_results = None, rs_error = Some ''Search timeout'', rs_steps = None,
              rs_workflowStatus = None \<rparr>
   \<and> requestPlan modelFails ''What is the stock price of Tesla?'' = Inl ''API key not valid''
   \<and> map_option
         (\<lambda>response. map_option
            (\<lambda>steps. (ps_success (ws_planning steps), ps_fallback (ws_planning steps),
                       ps_subQuestions (ws_planning steps)))
            (rs_steps response))
         (executeFinancialSearch serviceConfig orchestratorConfig modelFails allAnswer
            countEntries ''search_9'' ''What is the stock price of Tesla?'' noServiceOptions)
     = Some (Some (True, None,
          [ ''Research the basic information about: What is the stock price of Tesla?'',
            ''Find recent data and metrics related to: What is the stock price of Tesla?'',
            ''Analyze the context and implications of: What is the stock price of Tesla?'' ]))"
  by code_simp

text \<open>The rejected question \<^verbatim>\<open>test\<close> with both providers answering: the response
  records the planning fallback. The accepted question with a failing model call: the
  three templated sub-questions are searched.\<close>

theorem executeFinancialSearch_planning_throws_witness:
  "sc_enablePlanning serviceConfig
   \<and> fo_enablePlanning noServiceOptions \<noteq> Some False
   \<and> length (jsTrim ''test'') < 5
   \<and> (\<exists>response steps.
         executeFinancialSearch serviceConfig orchestratorConfig modelFails allAnswer
             countEntries ''search_9'' ''test'' noServiceOptions = Some response
         \<and> rs_steps response = Some steps
         \<and> ws_planning steps =
             \<lparr> ps_success = False, ps_subQuestions = [''test''],
               ps_error = Some ''Invalid question: Question is too short (minimum 5 characters)'',
               ps_fallback = Some True, ps_note = None, ps_originalPlan = None \<rparr>)
   \<and> \<not> (length (jsTrim ''What is the stock price of Tesla?'') < 5
          \<or> length (jsTrim ''What is the stock price of Tesla?'') > 500)
   \<and> pw_modelError modelFails = None
   \<and> pw_invoke modelFails (jsTrim ''What is the stock price of Tesla?'') = Inl ''API key not valid''
   \<and> fst (planningPhase serviceConfig noServiceOptions modelFails
              ''What is the stock price of Tesla?'')
       = [ ''Research the basic information about: What is the stock price of Tesla?'',
           ''Find recent data and metrics related to: What is the stock price of Tesla?'',
           ''Analyze the context and implications of: What is the stock price of Tesla?'' ]"
proof -
  have enabled: "sc_enablePlanning serviceConfig"
    and allowed: "fo_enablePlanning noServiceOptions \<noteq> Some False"
    by (simp_all add: serviceConfig_def noServiceOptions_def)
  have short: "length (jsTrim ''test'') < 5 \<or> length (jsTrim ''test'') > 500"
    by code_simp
  have short': "length (jsTrim ''test'') < 5"
    by code_simp
  have message: "''Invalid question: '' @ the (v_error (validateFinancialQuestion ''test''))
                   = ''Invalid question: Question is too short (minimum 5 characters)''"
    by code_simp
  have searched: "\<exists>batch. searchPhase serviceConfig orchestratorConfig noServiceOptions allAnswer
        [''test''] = Some (Inr batch)"
    by (simp add: searchPhase_single executeParallelSearch_completed serviceConfig_def
        noServiceOptions_def allAnswer_def concrete_calls)
  then obtain batch where batch: "searchPhase serviceConfig orchestratorConfig noServiceOptions
        allAnswer [''test''] = Some (Inr batch)" ..
  note rejected = executeFinancialSearch_planning_throws [OF enabled allowed,
      where userQuery = "''test''" and orchestrator = orchestratorConfig and world = allAnswer
        and planning = modelFails and processSearchResults = countEntries
        and searchId = "''search_9''",
      THEN conjunct2, THEN conjunct2, THEN conjunct1, THEN mp, OF short, THEN conjunct2]
  from rejected obtain outcome
    where outcome: "searchPhase serviceConfig orchestratorConfig noServiceOptions
        allAnswer [''test''] = Some outcome"
    and completed: "\<forall>batch. outcome = Inr batch \<longrightarrow>
          br_queries batch = [''test'']
          \<and> (\<exists>response steps.
                executeFinancialSearch serviceConfig orchestratorConfig modelFails
                    allAnswer countEntries ''search_9'' ''test'' noServiceOptions = Some response
                \<and> rs_steps response = Some steps
                \<and> ws_planning steps =
                    \<lparr> ps_success = False, ps_subQuestions = [''test''],
                      ps_error = Some (''Invalid question: ''
                        @ the (v_error (validateFinancialQuestion ''test''))),
                      ps_fallback = Some True, ps_note = None, ps_originalPlan = None \<rparr>)"
    by (elim conjE exE) (rule that)
  from outcome batch have is_batch: "outcome = Inr batch" by simp
  note found = completed [THEN spec, THEN mp, OF is_batch, THEN conjunct2,
      unfolded message]
  have long: "\<not> (length (jsTrim ''What is the stock price of Tesla?'') < 5
          \<or> length (jsTrim ''What is the stock price of Tesla?'') > 500)"
    by code_simp
  have ready: "pw_modelError modelFails = None"
    and fails: "pw_invoke modelFails (jsTrim ''What is the stock price of Tesla?'')
                  = Inl ''API key not valid''"
    by (simp_all add: modelFails_def)
  have three: "jsSlice
         [ ''Research the basic information about: '' @ ''What is the stock price of Tesla?'',
           ''Find recent data and metrics related to: '' @ ''What is the stock price of Tesla?'',
           ''Analyze the context and implications of: '' @ ''What is the stock price of Tesla?'' ]
         0 (sc_maxSubQuestions serviceConfig)
       = [ ''Research the basic information about: What is the stock price of Tesla?'',
           ''Find recent data and metrics related to: What is the stock price of Tesla?'',
           ''Analyze the context and implications of: What is the stock price of Tesla?'' ]"
    by code_simp
  note absorbed = executeFinancialSearch_planning_throws [OF enabled allowed,
      where userQuery = "''What is the stock price of Tesla?''" and planning = modelFails
        and failure = "''API key not valid''" and orchestrator = orchestratorConfig
        and world = allAnswer and processSearchResults = countEntries
        and searchId = "''search_9''",
      THEN conjunct2, THEN conjunct2, THEN conjunct2, THEN mp,
      OF conjI [OF long disjI2 [OF disjI1 [OF conjI [OF ready fails]]]],
      unfolded Let_def, THEN conjunct1, unfolded three]
  show ?thesis
    by (intro conjI) (fact enabled, fact allowed, fact short', fact found, fact long,
        fact ready, fact fails, fact absorbed)
qed

end
